theory Spec2Isabelle
  imports Complex_Main
begin

section \<open>Python values used by the trip services\<close>

text \<open>
  Floats are modelled by the reals, Python integers by \<open>int\<close> (loop indices that only
  index lists by \<open>nat\<close>), and a \<open>datetime\<close> by its number of seconds since the epoch,
  so that \<open>(t2 - t1).total_seconds()\<close> is \<open>t2 - t1\<close>.
  An exception is a value \<open>Inl e\<close> of a sum type.
\<close>

datatype error =
    ZeroDivisionError
  | ValueError
  | TypeError
  | AttributeError
  | IndexError
  | ModelError

type_synonym datetime = real

definition datetime_hour :: "datetime \<Rightarrow> int" where
  "datetime_hour t = \<lfloor>t / 3600\<rfloor> mod 24"

definition datetime_weekday :: "datetime \<Rightarrow> int" where
  \<comment> \<open>Monday is 0; the epoch was a Thursday.\<close>
  "datetime_weekday t = (\<lfloor>t / 86400\<rfloor> + 3) mod 7"

record waypoint =
  lat :: real
  lng :: real
  timestamp :: datetime

definition radians :: "real \<Rightarrow> real" where
  "radians d = d * pi / 180"

definition degrees :: "real \<Rightarrow> real" where
  "degrees r = r * 180 / pi"

definition atan2 :: "real \<Rightarrow> real \<Rightarrow> real" where
  \<comment> \<open>\<open>math.atan2(y, x)\<close> and \<open>np.arctan2(y, x)\<close>: the angle of the point \<open>(x, y)\<close>.\<close>
  "atan2 y x =
     (if 0 < x then arctan (y / x)
      else if x < 0 then (if 0 \<le> y then arctan (y / x) + pi else arctan (y / x) - pi)
      else if 0 < y then pi / 2
      else if y < 0 then - (pi / 2)
      else 0)"

definition py_mod :: "real \<Rightarrow> real \<Rightarrow> real" where
  \<comment> \<open>Python's \<open>x % m\<close> on floats: the result has the sign of \<open>m\<close>.\<close>
  "py_mod x m = x - m * of_int \<lfloor>x / m\<rfloor>"

section \<open>GeoMath\<close>

subsection \<open>mode\_detector.py\<close>

definition ModeDetector_haversine_distance :: "real \<Rightarrow> real \<Rightarrow> real \<Rightarrow> real \<Rightarrow> real" where
  "ModeDetector_haversine_distance lat1 lon1 lat2 lon2 =
     (let dlat = radians (lat2 - lat1);
          dlon = radians (lon2 - lon1);
          a = sin (dlat / 2) * sin (dlat / 2) +
              cos (radians lat1) * cos (radians lat2) * sin (dlon / 2) * sin (dlon / 2);
          c = 2 * atan2 (sqrt a) (sqrt (1 - a))
      in 6371 * c)"

definition ModeDetector_calculate_bearing :: "waypoint \<Rightarrow> waypoint \<Rightarrow> real" where
  "ModeDetector_calculate_bearing point1 point2 =
     (let lat1 = radians (lat point1); lon1 = radians (lng point1);
          lat2 = radians (lat point2); lon2 = radians (lng point2);
          dlon = lon2 - lon1;
          y = sin dlon * cos lat2;
          x = cos lat1 * sin lat2 - sin lat1 * cos lat2 * cos dlon;
          bearing = atan2 y x
      in degrees bearing)"

subsection \<open>advanced\_mode\_detector.py\<close>

definition AdvancedModeDetector_haversine_distance :: "real \<Rightarrow> real \<Rightarrow> real \<Rightarrow> real \<Rightarrow> real" where
  "AdvancedModeDetector_haversine_distance lat1' lon1' lat2' lon2' =
     (let lat1 = radians lat1'; lon1 = radians lon1';
          lat2 = radians lat2'; lon2 = radians lon2';
          dlat = lat2 - lat1;
          dlon = lon2 - lon1;
          a = (sin (dlat / 2))\<^sup>2 + cos lat1 * cos lat2 * (sin (dlon / 2))\<^sup>2;
          c = 2 * arcsin (sqrt a)
      in 6371 * c)"

definition AdvancedModeDetector_calculate_bearing :: "waypoint \<Rightarrow> waypoint \<Rightarrow> real" where
  "AdvancedModeDetector_calculate_bearing point1 point2 =
     (let lat1 = radians (lat point1);
          lon1 = radians (lng point1);
          lat2 = radians (lat point2);
          lon2 = radians (lng point2);
          dlon = lon2 - lon1;
          y = sin dlon * cos lat2;
          x = cos lat1 * sin lat2 - sin lat1 * cos lat2 * cos dlon;
          bearing = degrees (atan2 y x)
      in py_mod (bearing + 360) 360)"

section \<open>Trip records\<close>

text \<open>
  A trip dictionary, one optional field per key the services read; \<open>None\<close> is a missing
  key. The keys \<open>start_time\<close>, \<open>waypoints\<close> and \<open>weekday\<close> carry the prefix \<open>trip_\<close>
  here. A start time is a \<open>datetime\<close> or a string still to be parsed.
\<close>

datatype timeval = Datetime datetime | Str string

record weather_data =
  temperature :: "real option"
  condition :: "string option"
  precipitation :: "real option"

record trip_data =
  distance_km :: "real option"
  duration_minutes :: "real option"
  time_of_day :: "real option"
  trip_start_time :: "timeval option"
  trip_waypoints :: "waypoint list option"
  weather :: "weather_data option"
  route_type :: "real option"
  trip_weekday :: "int option"
  dest_address :: "string option"
  origin_address :: "string option"
  transport_mode :: "string option"
  dest_lat :: "real option"
  dest_lng :: "real option"
  purpose :: "string option"

definition empty_trip :: trip_data where
  "empty_trip =
     \<lparr>distance_km = None, duration_minutes = None, time_of_day = None, trip_start_time = None,
      trip_waypoints = None, weather = None, route_type = None, trip_weekday = None,
      dest_address = None, origin_address = None, transport_mode = None, dest_lat = None,
      dest_lng = None, purpose = None\<rparr>"

definition get_or :: "'a option \<Rightarrow> 'a \<Rightarrow> 'a" where
  \<comment> \<open>\<open>d.get(key, default)\<close>\<close>
  "get_or v d = (case v of None \<Rightarrow> d | Some x \<Rightarrow> x)"

definition py_div :: "real \<Rightarrow> real \<Rightarrow> error + real" where
  "py_div a b = (if b = 0 then Inl ZeroDivisionError else Inr (a / b))"

fun max_from :: "'k \<times> real \<Rightarrow> ('k \<times> real) list \<Rightarrow> 'k \<times> real" where
  "max_from best [] = best"
| "max_from best (kv # rest) = max_from (if snd kv > snd best then kv else best) rest"

definition max_key :: "('k \<times> real) list \<Rightarrow> error + 'k" where
  \<comment> \<open>\<open>max(d, key=d.get)\<close>: the first key, in insertion order, with the greatest value.\<close>
  "max_key d = (case d of [] \<Rightarrow> Inl ValueError | kv # rest \<Rightarrow> Inr (fst (max_from kv rest)))"

definition lookup :: "('k \<times> 'v) list \<Rightarrow> 'k \<Rightarrow> 'v option" where
  "lookup d k = map_of d k"

section \<open>ModeClassifier, fallback tier (mode\_detector.py)\<close>

record mode_config =
  min_speed :: real
  max_speed :: real
  base_prob :: real

definition mode_probabilities :: "(string \<times> mode_config) list" where
  "mode_probabilities =
     [(''walk'', \<lparr>min_speed = 0, max_speed = 8, base_prob = 0.3\<rparr>),
      (''cycle'', \<lparr>min_speed = 5, max_speed = 25, base_prob = 0.2\<rparr>),
      (''bike'', \<lparr>min_speed = 15, max_speed = 60, base_prob = 0.1\<rparr>),
      (''car'', \<lparr>min_speed = 10, max_speed = 120, base_prob = 0.25\<rparr>),
      (''bus'', \<lparr>min_speed = 5, max_speed = 50, base_prob = 0.1\<rparr>),
      (''metro'', \<lparr>min_speed = 20, max_speed = 80, base_prob = 0.05\<rparr>)]"

definition speed_score :: "real \<Rightarrow> mode_config \<Rightarrow> error + real" where
  "speed_score avg_speed_kmh config =
     (if min_speed config \<le> avg_speed_kmh \<and> avg_speed_kmh \<le> max_speed config then Inr 1
      else if avg_speed_kmh < min_speed config then
        (case py_div (min_speed config - avg_speed_kmh) (min_speed config) of
           Inl e \<Rightarrow> Inl e | Inr q \<Rightarrow> Inr (max 0 (1 - q)))
      else
        (case py_div (avg_speed_kmh - max_speed config) (max_speed config) of
           Inl e \<Rightarrow> Inl e | Inr q \<Rightarrow> Inr (max 0 (1 - q))))"

definition mode_score :: "real \<Rightarrow> real \<Rightarrow> real \<Rightarrow> string \<Rightarrow> mode_config \<Rightarrow> error + real" where
  \<comment> \<open>The body of \<open>for mode, config in self.mode_probabilities.items()\<close>.\<close>
  "mode_score avg_speed_kmh dkm tod mode config =
     (case speed_score avg_speed_kmh config of
        Inl e \<Rightarrow> Inl e
      | Inr sp \<Rightarrow>
          (let score0 = base_prob config * sp;
               score1 = (if mode = ''walk'' \<and> dkm > 5 then score0 * 0.1
                         else if mode = ''cycle'' \<and> dkm > 20 then score0 * 0.3
                         else if mode \<in> set [''bus'', ''metro''] \<and> dkm < 1 then score0 * 0.2
                         else score0);
               score2 = (if mode \<in> set [''bus'', ''metro''] then
                           (if (7 \<le> tod \<and> tod \<le> 9) \<or> (17 \<le> tod \<and> tod \<le> 19) then score1 * 1.5
                            else if 22 \<le> tod \<or> tod \<le> 5 then score1 * 0.3
                            else score1)
                         else score1)
           in Inr score2))"

fun mode_scores_loop ::
  "real \<Rightarrow> real \<Rightarrow> real \<Rightarrow> (string \<times> mode_config) list \<Rightarrow> error + (string \<times> real) list" where
  "mode_scores_loop avg dkm tod [] = Inr []"
| "mode_scores_loop avg dkm tod ((mode, config) # rest) =
     (case mode_score avg dkm tod mode config of
        Inl e \<Rightarrow> Inl e
      | Inr score \<Rightarrow>
          (case mode_scores_loop avg dkm tod rest of
             Inl e \<Rightarrow> Inl e
           | Inr scores \<Rightarrow> Inr ((mode, score) # scores)))"

definition apply_jitter :: "(string \<Rightarrow> real) \<Rightarrow> (string \<times> real) list \<Rightarrow> (string \<times> real) list" where
  \<comment> \<open>\<open>for k in scores: scores[k] *= random.uniform(lo, hi)\<close>, with \<open>jitter k\<close> the factor
      drawn for \<open>k\<close>.\<close>
  "apply_jitter jitter scores = map (\<lambda>(k, v). (k, v * jitter k)) scores"

definition confidence_of :: "(string \<times> real) list \<Rightarrow> string \<Rightarrow> real \<Rightarrow> real" where
  \<comment> \<open>\<open>scores[predicted] / total_score if total_score > 0 else fallback\<close>\<close>
  "confidence_of scores predicted fallback =
     (let total_score = sum_list (map snd scores)
      in if total_score > 0 then get_or (lookup scores predicted) 0 / total_score else fallback)"

text \<open>
  The factors that \<open>random.uniform(0.8, 1.2)\<close> returns, one per mode, are the argument
  \<open>jitter\<close>: the generator is the module's global one, which nothing seeds.
\<close>

definition ModeDetector_predict_mode ::
  "trip_data \<Rightarrow> (string \<Rightarrow> real) \<Rightarrow> error + (string \<times> real)" where
  "ModeDetector_predict_mode td jitter =
     (let dkm = get_or (distance_km td) 0;
          dur = get_or (duration_minutes td) 1;
          tod = get_or (time_of_day td) 12;
          avg_speed_kmh = (if dur > 0 then (dkm / dur) * 60 else 0)
      in case mode_scores_loop avg_speed_kmh dkm tod mode_probabilities of
           Inl e \<Rightarrow> Inl e
         | Inr scores \<Rightarrow>
             (let mode_scores = apply_jitter jitter scores
              in case max_key mode_scores of
                   Inl e \<Rightarrow> Inl e
                 | Inr predicted_mode \<Rightarrow>
                     (let confidence = confidence_of mode_scores predicted_mode 0.5;
                          confidence1 = min confidence 0.95;
                          confidence2 = max confidence1 0.1
                      in Inr (predicted_mode, confidence2))))"

definition uniform_draws :: "real \<Rightarrow> real \<Rightarrow> string list \<Rightarrow> (string \<Rightarrow> real) \<Rightarrow> bool" where
  \<comment> \<open>Every factor drawn for one of the keys lies between the bounds given to
      \<open>random.uniform\<close>.\<close>
  "uniform_draws lo hi keys jitter = list_all (\<lambda>k. lo \<le> jitter k \<and> jitter k \<le> hi) keys"

definition no_jitter :: "string \<Rightarrow> real" where
  "no_jitter k = 1"

section \<open>TripSegmenter\<close>

record segment =
  start_idx :: int
  end_idx :: int
  waypoints :: "waypoint list"

text \<open>
  The richer tier's segment dictionaries also carry a mode and, on the scanning path, the
  times of the first and last waypoint; the short-circuit dictionary has no time keys.
\<close>

record adv_segment = segment +
  predicted_mode :: "string option"
  start_time :: "datetime option"
  end_time :: "datetime option"

record 'seg scan_state =
  segments :: "'seg list"
  current_segment_start :: nat
  in_stop :: bool
  stop_start_time :: "datetime option"

definition slice :: "'a list \<Rightarrow> nat \<Rightarrow> nat \<Rightarrow> 'a list" where
  \<comment> \<open>\<open>xs[a:b]\<close> for \<open>0 \<le> a\<close>, \<open>0 \<le> b\<close>.\<close>
  "slice xs a b = take (b - a) (drop a xs)"

definition first_item :: "'a list \<Rightarrow> error + 'a" where
  "first_item xs = (case xs of [] \<Rightarrow> Inl IndexError | x # _ \<Rightarrow> Inr x)"

definition last_item :: "'a list \<Rightarrow> error + 'a" where
  "last_item xs = (if xs = [] then Inl IndexError else Inr (last xs))"

fun for_loop :: "(nat \<Rightarrow> 's \<Rightarrow> error + 's) \<Rightarrow> nat list \<Rightarrow> 's \<Rightarrow> error + 's" where
  "for_loop body [] s = Inr s"
| "for_loop body (i # rest) s =
     (case body i s of Inl e \<Rightarrow> Inl e | Inr s' \<Rightarrow> for_loop body rest s')"

definition scan_init :: "'seg scan_state" where
  "scan_init =
     \<lparr>segments = [], current_segment_start = 0, in_stop = False, stop_start_time = None\<rparr>"

subsection \<open>mode\_detector.py\<close>

definition ModeDetector_segment_step ::
  "waypoint list \<Rightarrow> real \<Rightarrow> nat \<Rightarrow> segment scan_state \<Rightarrow> error + segment scan_state" where
  \<comment> \<open>The body of \<open>for i in range(1, len(waypoints))\<close>.\<close>
  "ModeDetector_segment_step ws min_stop_duration i st =
     (let prev_point = ws ! (i - 1);
          curr_point = ws ! i;
          distance = ModeDetector_haversine_distance
                       (lat prev_point) (lng prev_point) (lat curr_point) (lng curr_point);
          time_diff = timestamp curr_point - timestamp prev_point;
          speed = (if time_diff > 0 then (distance / time_diff) * 3600 else 0)
      in if speed < 1 then
           (if \<not> in_stop st
            then Inr (st\<lparr>in_stop := True, stop_start_time := Some (timestamp prev_point)\<rparr>)
            else Inr st)
         else if in_stop st then
           (case stop_start_time st of
              None \<Rightarrow> Inl TypeError
            | Some t0 \<Rightarrow>
                (let stop_duration = timestamp prev_point - t0;
                     st1 = (if stop_duration \<ge> min_stop_duration then
                              (let st2 = (if current_segment_start st < i - 1 then
                                            st\<lparr>segments := segments st @
                                               [\<lparr>start_idx = int (current_segment_start st),
                                                 end_idx = int i - 1,
                                                 waypoints = slice ws (current_segment_start st) i\<rparr>]\<rparr>
                                          else st)
                               in st2\<lparr>current_segment_start := i\<rparr>)
                            else st)
                 in Inr (st1\<lparr>in_stop := False, stop_start_time := None\<rparr>)))
         else Inr st)"

definition ModeDetector_detect_trip_segments ::
  "waypoint list \<Rightarrow> real \<Rightarrow> error + segment list" where
  "ModeDetector_detect_trip_segments ws min_stop_duration =
     (if length ws < 2 then Inr []
      else
        (case for_loop (ModeDetector_segment_step ws min_stop_duration) [1..<length ws] scan_init of
           Inl e \<Rightarrow> Inl e
         | Inr st \<Rightarrow>
             Inr (if int (current_segment_start st) < int (length ws) - 1 then
                    segments st @
                      [\<lparr>start_idx = int (current_segment_start st),
                        end_idx = int (length ws) - 1,
                        waypoints = drop (current_segment_start st) ws\<rparr>]
                  else segments st)))"

subsection \<open>advanced\_mode\_detector.py\<close>

text \<open>
  Waypoint timestamps are \<open>datetime\<close> objects, which \<open>_parse_timestamp\<close> returns as they
  are. The mode \<open>_predict_segment_mode\<close> returns for a run of waypoints comes from the
  trained models or from the jittered fallback scorer; the scan takes it as the
  parameter \<open>predict_segment_mode\<close>.
\<close>

definition AdvancedModeDetector_make_segment ::
  "(waypoint list \<Rightarrow> string option) \<Rightarrow> nat \<Rightarrow> int \<Rightarrow> waypoint list \<Rightarrow> error + adv_segment" where
  \<comment> \<open>The dictionary appended for \<open>segment_waypoints\<close>, as both append sites build it.\<close>
  "AdvancedModeDetector_make_segment predict_segment_mode start e segment_waypoints =
     (let segment_mode = predict_segment_mode segment_waypoints
      in case first_item segment_waypoints of
           Inl err \<Rightarrow> Inl err
         | Inr w0 \<Rightarrow>
             (case last_item segment_waypoints of
                Inl err \<Rightarrow> Inl err
              | Inr wn \<Rightarrow>
                  Inr \<lparr>start_idx = int start, end_idx = e, waypoints = segment_waypoints,
                       predicted_mode = segment_mode,
                       start_time = Some (timestamp w0),
                       end_time = Some (timestamp wn)\<rparr>))"

definition AdvancedModeDetector_segment_step ::
  "(waypoint list \<Rightarrow> string option) \<Rightarrow> waypoint list \<Rightarrow> real \<Rightarrow> nat \<Rightarrow>
   adv_segment scan_state \<Rightarrow> error + adv_segment scan_state" where
  "AdvancedModeDetector_segment_step predict_segment_mode ws min_stop_duration i st =
     (let prev_point = ws ! (i - 1);
          curr_point = ws ! i;
          distance = AdvancedModeDetector_haversine_distance
                       (lat prev_point) (lng prev_point) (lat curr_point) (lng curr_point);
          prev_time = timestamp prev_point;
          curr_time = timestamp curr_point;
          time_diff_seconds = curr_time - prev_time
      in if time_diff_seconds > 0 then
           (let speed_kmh = (distance / time_diff_seconds) * 3600
            in if speed_kmh < 1 then
                 (if \<not> in_stop st
                  then Inr (st\<lparr>in_stop := True, stop_start_time := Some prev_time\<rparr>)
                  else Inr st)
               else if in_stop st then
                 (case stop_start_time st of
                    None \<Rightarrow> Inl TypeError
                  | Some t0 \<Rightarrow>
                      (let stop_duration = prev_time - t0
                       in if stop_duration \<ge> min_stop_duration then
                            (if current_segment_start st < i - 1 then
                               (case AdvancedModeDetector_make_segment predict_segment_mode
                                       (current_segment_start st) (int i - 1)
                                       (slice ws (current_segment_start st) i) of
                                  Inl err \<Rightarrow> Inl err
                                | Inr seg \<Rightarrow>
                                    Inr (st\<lparr>segments := segments st @ [seg],
                                            current_segment_start := i,
                                            in_stop := False, stop_start_time := None\<rparr>))
                             else Inr (st\<lparr>current_segment_start := i,
                                          in_stop := False, stop_start_time := None\<rparr>))
                          else Inr (st\<lparr>in_stop := False, stop_start_time := None\<rparr>)))
               else Inr st)
         else Inr st)"

definition AdvancedModeDetector_detect_trip_segments ::
  "(waypoint list \<Rightarrow> string option) \<Rightarrow> waypoint list \<Rightarrow> real \<Rightarrow> error + adv_segment list" where
  "AdvancedModeDetector_detect_trip_segments predict_segment_mode ws min_stop_duration =
     (if length ws < 10 then
        Inr [\<lparr>start_idx = 0, end_idx = int (length ws) - 1, waypoints = ws,
              predicted_mode = None, start_time = None, end_time = None\<rparr>]
      else
        (case for_loop (AdvancedModeDetector_segment_step predict_segment_mode ws min_stop_duration)
                [1..<length ws] scan_init of
           Inl e \<Rightarrow> Inl e
         | Inr st \<Rightarrow>
             (if int (current_segment_start st) < int (length ws) - 1 then
                (case AdvancedModeDetector_make_segment predict_segment_mode
                        (current_segment_start st) (int (length ws) - 1)
                        (drop (current_segment_start st) ws) of
                   Inl err \<Rightarrow> Inl err
                 | Inr seg \<Rightarrow> Inr (segments st @ [seg]))
              else Inr (segments st))))"

text \<open>
  What the segmentation properties speak about: \<open>tiles a segs e\<close> holds when the index
  ranges of \<open>segs\<close>, in list order, are non-empty, start at \<open>a\<close>, each begin right after
  the one before, and end at \<open>e\<close>; so they cover \<open>a..e\<close> with no gap and no overlap.
\<close>

fun tiles :: "int \<Rightarrow> ('a segment_scheme) list \<Rightarrow> int \<Rightarrow> bool" where
  "tiles a [] e = (e = a - 1)"
| "tiles a (s # ss) e = (start_idx s = a \<and> a \<le> end_idx s \<and> tiles (end_idx s + 1) ss e)"

fun slices_of :: "waypoint list \<Rightarrow> ('a segment_scheme) list \<Rightarrow> bool" where
  "slices_of ws [] = True"
| "slices_of ws (s # ss) =
     (0 \<le> start_idx s \<and> start_idx s < end_idx s \<and> end_idx s < int (length ws) \<and>
      waypoints s = slice ws (nat (start_idx s)) (nat (end_idx s + 1)) \<and> slices_of ws ss)"

text \<open>
  The invariant at the head of iteration \<open>i\<close>: the open segment starts before \<open>i\<close>, the
  closed ones tile the indices before it, and during a stop the stop's start time is set
  and the open segment already holds two waypoints.
\<close>

definition scan_inv :: "waypoint list \<Rightarrow> nat \<Rightarrow> ('a segment_scheme) scan_state \<Rightarrow> bool" where
  "scan_inv ws i st =
     (current_segment_start st < i \<and>
      (in_stop st \<longrightarrow> stop_start_time st \<noteq> None \<and> Suc (current_segment_start st) < i) \<and>
      tiles 0 (segments st) (int (current_segment_start st) - 1) \<and>
      slices_of ws (segments st))"

subsection \<open>Example journeys\<close>

definition unclassified :: "waypoint list \<Rightarrow> string option" where
  "unclassified ws = None"

definition at_origin :: "datetime \<Rightarrow> waypoint" where
  "at_origin t = \<lparr>lat = 0, lng = 0, timestamp = t\<rparr>"

definition at_antipode :: "datetime \<Rightarrow> waypoint" where
  "at_antipode t = \<lparr>lat = 0, lng = 180, timestamp = t\<rparr>"

definition short_journey :: "waypoint list" where
  \<comment> \<open>A stop of 400 seconds, then one fast leg that ends the recording.\<close>
  "short_journey = [at_origin 0, at_origin 400, at_antipode 410]"

definition long_journey :: "waypoint list" where
  \<comment> \<open>The same with ten waypoints, enough for the richer tier to scan.\<close>
  "long_journey =
     [at_origin 0, at_origin 50, at_origin 100, at_origin 150, at_origin 200, at_origin 250,
      at_origin 300, at_origin 350, at_origin 400, at_antipode 410]"

section \<open>PurposeClassifier (purpose\_predictor.py)\<close>

record time_pattern =
  peak_hours :: "(int \<times> int) list"
  low_hours :: "(int \<times> int) list"
  weekday_boost :: "real option"
  weekend_boost :: "real option"
  weekend_penalty :: "real option"

definition time_patterns :: "(string \<times> time_pattern) list" where
  "time_patterns =
     [(''work'', \<lparr>peak_hours = [(7, 9), (17, 19)], low_hours = [(22, 6)],
                 weekday_boost = Some 1.5, weekend_boost = None, weekend_penalty = Some 0.3\<rparr>),
      (''school'', \<lparr>peak_hours = [(7, 9), (15, 17)], low_hours = [(19, 7)],
                   weekday_boost = Some 2.0, weekend_boost = None, weekend_penalty = Some 0.1\<rparr>),
      (''shopping'', \<lparr>peak_hours = [(10, 12), (14, 18)], low_hours = [(0, 7)],
                     weekday_boost = Some 1.0, weekend_boost = Some 1.3, weekend_penalty = None\<rparr>),
      (''leisure'', \<lparr>peak_hours = [(10, 22)], low_hours = [(0, 8)],
                    weekday_boost = Some 0.8, weekend_boost = Some 1.5, weekend_penalty = None\<rparr>),
      (''social'', \<lparr>peak_hours = [(18, 23)], low_hours = [(5, 10)],
                   weekday_boost = Some 1.0, weekend_boost = Some 1.4, weekend_penalty = None\<rparr>)]"

definition location_keywords :: "(string \<times> string list) list" where
  "location_keywords =
     [(''work'', [''office'', ''business'', ''corporate'', ''company'', ''headquarters'', ''building'']),
      (''school'', [''school'', ''university'', ''college'', ''campus'', ''education'', ''library'']),
      (''shopping'', [''mall'', ''store'', ''shop'', ''market'', ''grocery'', ''supermarket'', ''retail'']),
      (''leisure'', [''park'', ''cinema'', ''theater'', ''museum'', ''beach'', ''restaurant'', ''cafe'']),
      (''social'', [''friend'', ''family'', ''home'', ''residence'', ''house'', ''apartment'']),
      (''medical'', [''hospital'', ''clinic'', ''doctor'', ''medical'', ''pharmacy'', ''health''])]"

definition mode_preferences :: "(string \<times> (string \<times> real) list) list" where
  "mode_preferences =
     [(''work'', [(''car'', 1.2), (''bus'', 1.3), (''metro'', 1.3), (''cycle'', 1.1),
                 (''walk'', 0.8), (''taxi'', 0.9)]),
      (''school'', [(''bus'', 1.4), (''metro'', 1.3), (''cycle'', 1.2), (''walk'', 1.1),
                   (''car'', 0.8), (''taxi'', 0.7)]),
      (''shopping'', [(''car'', 1.3), (''bus'', 1.1), (''walk'', 1.2), (''taxi'', 1.1),
                     (''cycle'', 0.8), (''metro'', 0.9)]),
      (''leisure'', [(''walk'', 1.2), (''cycle'', 1.3), (''car'', 1.1), (''taxi'', 1.0),
                    (''bus'', 0.9), (''metro'', 0.9)]),
      (''social'', [(''car'', 1.2), (''taxi'', 1.3), (''walk'', 1.1), (''bus'', 1.0),
                   (''cycle'', 0.9), (''metro'', 1.0)])]"

definition lower_char :: "char \<Rightarrow> char" where
  "lower_char c =
     (let n = (of_char c :: nat) in if 65 \<le> n \<and> n \<le> 90 then char_of (n + 32) else c)"

definition lower :: "string \<Rightarrow> string" where
  \<comment> \<open>\<open>str.lower()\<close> on ASCII text.\<close>
  "lower s = map lower_char s"

fun is_prefix :: "string \<Rightarrow> string \<Rightarrow> bool" where
  "is_prefix [] ys = True"
| "is_prefix (x # xs) [] = False"
| "is_prefix (x # xs) (y # ys) = (x = y \<and> is_prefix xs ys)"

fun contains :: "string \<Rightarrow> string \<Rightarrow> bool" where
  \<comment> \<open>\<open>needle in haystack\<close>\<close>
  "contains [] needle = (needle = [])"
| "contains (c # cs) needle = (is_prefix needle (c # cs) \<or> contains cs needle)"

definition count_matches :: "string list \<Rightarrow> string \<Rightarrow> real" where
  \<comment> \<open>\<open>sum(1 for keyword in keywords if keyword in address)\<close>\<close>
  "count_matches keywords address = real (length (filter (contains address) keywords))"

definition in_range :: "int \<Rightarrow> int \<times> int \<Rightarrow> bool" where
  "in_range h r = (fst r \<le> h \<and> h \<le> snd r)"

definition low_step :: "int \<Rightarrow> int \<times> int \<Rightarrow> real \<Rightarrow> real" where
  \<comment> \<open>The body of the loop over \<open>low_hours\<close>.\<close>
  "low_step h r score =
     (if fst r > snd r then (if h \<ge> fst r \<or> h \<le> snd r then score * 0.3 else score)
      else (if fst r \<le> h \<and> h \<le> snd r then score * 0.3 else score))"

definition calculate_time_score :: "string \<Rightarrow> datetime option \<Rightarrow> int \<Rightarrow> real" where
  "calculate_time_score purp start wd =
     (case start of
        None \<Rightarrow> 0.5
      | Some t \<Rightarrow>
          (case lookup time_patterns purp of
             None \<Rightarrow> 0.5
           | Some pattern \<Rightarrow>
               (let h = datetime_hour t;
                    score0 = (if list_ex (in_range h) (peak_hours pattern) then 1.0 else 0.3);
                    score1 = fold (low_step h) (low_hours pattern) score0;
                    is_weekend = (wd \<ge> 5)
                in if is_weekend then
                     (case weekend_boost pattern of
                        Some b \<Rightarrow> score1 * b
                      | None \<Rightarrow>
                          (case weekend_penalty pattern of
                             Some q \<Rightarrow> score1 * q
                           | None \<Rightarrow> score1))
                   else
                     (case weekday_boost pattern of
                        Some b \<Rightarrow> score1 * b
                      | None \<Rightarrow> score1))))"

definition conflict_step :: "string \<Rightarrow> string \<Rightarrow> string \<times> string list \<Rightarrow> real \<Rightarrow> real" where
  \<comment> \<open>The body of the loop over the other purposes' keywords.\<close>
  "conflict_step purp dest other score =
     (if fst other \<noteq> purp then
        (let conflicts = count_matches (snd other) dest
         in if conflicts > 0 then score * (1 - conflicts * 0.2) else score)
      else score)"

definition calculate_location_score :: "string \<Rightarrow> string \<Rightarrow> string \<Rightarrow> real" where
  "calculate_location_score purp dest origin =
     (let score =
        (case lookup location_keywords purp of
           None \<Rightarrow> 1.0
         | Some keywords \<Rightarrow>
             (let dest_matches = count_matches keywords dest;
                  score0 = (if dest_matches > 0 then 1.0 * (1 + dest_matches * 0.5) else 1.0)
              in fold (conflict_step purp dest) location_keywords score0))
      in max score 0.1)"

definition calculate_mode_score :: "string \<Rightarrow> string \<Rightarrow> real" where
  "calculate_mode_score purp tmode =
     (case lookup mode_preferences purp of
        None \<Rightarrow> 1.0
      | Some prefs \<Rightarrow> (case lookup prefs tmode of None \<Rightarrow> 1.0 | Some v \<Rightarrow> v))"

text \<open>
  The history score reads the clock for a trip without a start time and asks geopy for a
  geodesic distance, which raises on a latitude outside \<open>[-90, 90]\<close>. Both are
  parameters: \<open>now\<close>, and \<open>geodesic_meters\<close> with its error as a value.
\<close>

definition hour_of_trip :: "datetime \<Rightarrow> trip_data \<Rightarrow> error + int" where
  \<comment> \<open>\<open>trip.get('start_time', datetime.now()).hour\<close>\<close>
  "hour_of_trip now trip =
     (case trip_start_time trip of
        None \<Rightarrow> Inr (datetime_hour now)
      | Some (Datetime t) \<Rightarrow> Inr (datetime_hour t)
      | Some (Str s) \<Rightarrow> Inl AttributeError)"

fun similar_trips_loop ::
  "(real \<times> real \<Rightarrow> real \<times> real \<Rightarrow> error + real) \<Rightarrow> datetime \<Rightarrow> int \<Rightarrow> real \<times> real \<Rightarrow>
   trip_data list \<Rightarrow> error + trip_data list" where
  "similar_trips_loop geodesic_meters now current_hour current_dest [] = Inr []"
| "similar_trips_loop geodesic_meters now current_hour current_dest (trip # rest) =
     (case hour_of_trip now trip of
        Inl e \<Rightarrow> Inl e
      | Inr trip_hour \<Rightarrow>
          (let trip_dest = (get_or (dest_lat trip) 0, get_or (dest_lng trip) 0)
           in case (if \<bar>trip_hour - current_hour\<bar> \<le> 2 \<and> fst current_dest \<noteq> 0 \<and> fst trip_dest \<noteq> 0
                    then (case geodesic_meters current_dest trip_dest of
                            Inl e \<Rightarrow> Inl e
                          | Inr distance \<Rightarrow> Inr (distance \<le> 500))
                    else Inr False) of
                Inl e \<Rightarrow> Inl e
              | Inr similar \<Rightarrow>
                  (case similar_trips_loop geodesic_meters now current_hour current_dest rest of
                     Inl e \<Rightarrow> Inl e
                   | Inr others \<Rightarrow> Inr (if similar then trip # others else others))))"

definition calculate_history_score ::
  "(real \<times> real \<Rightarrow> real \<times> real \<Rightarrow> error + real) \<Rightarrow> datetime \<Rightarrow> string \<Rightarrow> trip_data \<Rightarrow>
   trip_data list \<Rightarrow> error + real" where
  "calculate_history_score geodesic_meters now purp current_trip user_history =
     (if user_history = [] then Inr 1.0
      else
        (case hour_of_trip now current_trip of
           Inl e \<Rightarrow> Inl e
         | Inr current_hour \<Rightarrow>
             (let current_dest = (get_or (dest_lat current_trip) 0, get_or (dest_lng current_trip) 0)
              in case similar_trips_loop geodesic_meters now current_hour current_dest user_history of
                   Inl e \<Rightarrow> Inl e
                 | Inr similar_trips \<Rightarrow>
                     (if similar_trips = [] then Inr 1.0
                      else
                        (let count = length (filter (\<lambda>trip. get_or (purpose trip) ''other'' = purp)
                                               similar_trips)
                         in if count > 0
                            then Inr (1 + real count / real (length similar_trips))
                            else Inr 0.8)))))"

fun purpose_scores_loop ::
  "(real \<times> real \<Rightarrow> real \<times> real \<Rightarrow> error + real) \<Rightarrow> datetime \<Rightarrow> trip_data \<Rightarrow> trip_data list \<Rightarrow>
   datetime option \<Rightarrow> int \<Rightarrow> string \<Rightarrow> string \<Rightarrow> string \<Rightarrow> string list \<Rightarrow>
   error + (string \<times> real) list" where
  "purpose_scores_loop geodesic_meters now td user_history start wd dest origin tmode [] = Inr []"
| "purpose_scores_loop geodesic_meters now td user_history start wd dest origin tmode (purp # rest) =
     (let score0 = calculate_time_score purp start wd;
          score1 = score0 * calculate_location_score purp dest origin;
          score2 = score1 * calculate_mode_score purp tmode
      in case (if user_history \<noteq> [] then
                 (case calculate_history_score geodesic_meters now purp td user_history of
                    Inl e \<Rightarrow> Inl e
                  | Inr h \<Rightarrow> Inr (score2 * h))
               else Inr score2) of
           Inl e \<Rightarrow> Inl e
         | Inr score \<Rightarrow>
             (case purpose_scores_loop geodesic_meters now td user_history start wd dest origin
                     tmode rest of
                Inl e \<Rightarrow> Inl e
              | Inr scores \<Rightarrow> Inr ((purp, score) # scores)))"

definition other_purposes :: "string list" where
  "other_purposes = [''medical'', ''business'', ''exercise'', ''other'']"

definition add_other_purposes :: "(string \<times> real) list \<Rightarrow> (string \<times> real) list" where
  \<comment> \<open>\<open>for purpose in other_purposes: if purpose not in purpose_scores: ... = 0.1\<close>\<close>
  "add_other_purposes scores =
     fold (\<lambda>purp acc. if purp \<notin> set (map fst acc) then acc @ [(purp, 0.1)] else acc)
       other_purposes scores"

definition start_time_of :: "trip_data \<Rightarrow> error + datetime option" where
  \<comment> \<open>The start time as \<open>predict_purpose\<close> uses it: the default of the \<open>weekday\<close> lookup
      calls \<open>start_time.weekday()\<close> on any truthy value, which a string does not have.\<close>
  "start_time_of td =
     (case trip_start_time td of
        None \<Rightarrow> Inr None
      | Some (Datetime t) \<Rightarrow> Inr (Some t)
      | Some (Str s) \<Rightarrow> (if s = [] then Inr None else Inl AttributeError))"

text \<open>
  As in the mode scorer, the factors that \<open>random.uniform(0.7, 1.3)\<close> returns, one per
  purpose, are the argument \<open>jitter\<close>.
\<close>

definition PurposePredictor_predict_purpose ::
  "(real \<times> real \<Rightarrow> real \<times> real \<Rightarrow> error + real) \<Rightarrow> datetime \<Rightarrow> trip_data \<Rightarrow> trip_data list \<Rightarrow>
   (string \<Rightarrow> real) \<Rightarrow> error + (string \<times> real)" where
  "PurposePredictor_predict_purpose geodesic_meters now td user_history jitter =
     (case start_time_of td of
        Inl e \<Rightarrow> Inl e
      | Inr start \<Rightarrow>
          (let default_weekday = (case start of Some t \<Rightarrow> datetime_weekday t | None \<Rightarrow> 0);
               wd = get_or (trip_weekday td) default_weekday;
               dest = lower (get_or (dest_address td) []);
               origin = lower (get_or (origin_address td) []);
               tmode = get_or (transport_mode td) ''walk''
           in case purpose_scores_loop geodesic_meters now td user_history start wd dest origin
                     tmode (map fst time_patterns) of
                Inl e \<Rightarrow> Inl e
              | Inr scores \<Rightarrow>
                  (let purpose_scores = apply_jitter jitter (add_other_purposes scores)
                   in case max_key purpose_scores of
                        Inl e \<Rightarrow> Inl e
                      | Inr predicted_purpose \<Rightarrow>
                          (let confidence = confidence_of purpose_scores predicted_purpose 0.3;
                               confidence1 = min confidence 0.9;
                               confidence2 = max confidence1 0.2
                           in Inr (predicted_purpose, confidence2)))))"

definition no_geodesic :: "real \<times> real \<Rightarrow> real \<times> real \<Rightarrow> error + real" where
  \<comment> \<open>A stand-in for geopy where no history is given and it is never called.\<close>
  "no_geodesic a b = Inl ValueError"

section \<open>WaypointAnalyzer\<close>

definition mean :: "real list \<Rightarrow> real" where
  \<comment> \<open>\<open>np.mean\<close> of a non-empty list\<close>
  "mean xs = sum_list xs / real (length xs)"

definition maximum :: "real list \<Rightarrow> real" where
  \<comment> \<open>\<open>max\<close> of a non-empty list; every caller checks that the list is not empty.\<close>
  "maximum xs = fold max (tl xs) (hd xs)"

definition direction_step :: "(waypoint \<Rightarrow> waypoint \<Rightarrow> real) \<Rightarrow> waypoint list \<Rightarrow> nat \<Rightarrow> int \<Rightarrow> int" where
  \<comment> \<open>The body of \<open>for i in range(2, len(waypoints))\<close>, the same in both tiers but for
      the bearing function it calls.\<close>
  "direction_step calculate_bearing ws i direction_changes =
     (let bearing1 = calculate_bearing (ws ! (i - 2)) (ws ! (i - 1));
          bearing2 = calculate_bearing (ws ! (i - 1)) (ws ! i);
          angle_diff0 = \<bar>bearing2 - bearing1\<bar>;
          angle_diff = (if angle_diff0 > 180 then 360 - angle_diff0 else angle_diff0)
      in if angle_diff > 45 then direction_changes + 1 else direction_changes)"

definition count_direction_changes :: "(waypoint \<Rightarrow> waypoint \<Rightarrow> real) \<Rightarrow> waypoint list \<Rightarrow> int" where
  "count_direction_changes calculate_bearing ws =
     (if length ws \<ge> 3 then fold (direction_step calculate_bearing ws) [2..<length ws] 0 else 0)"

subsection \<open>mode\_detector.py\<close>

record movement =
  avg_speed :: real
  max_speed :: real
  stops_count :: int
  direction_changes :: int
  smoothness_score :: real

record speed_state =
  speeds :: "real list"
  stops :: int

definition ModeDetector_speed_step :: "waypoint list \<Rightarrow> nat \<Rightarrow> speed_state \<Rightarrow> speed_state" where
  "ModeDetector_speed_step ws i st =
     (let prev_point = ws ! (i - 1);
          curr_point = ws ! i;
          distance = ModeDetector_haversine_distance
                       (lat prev_point) (lng prev_point) (lat curr_point) (lng curr_point);
          time_diff = (timestamp curr_point - timestamp prev_point) / 3600
      in if time_diff > 0 then
           (let speed = distance / time_diff
            in \<lparr>speeds = speeds st @ [speed],
                stops = (if speed < 1 then stops st + 1 else stops st)\<rparr>)
         else st)"

definition ModeDetector_analyze_waypoints :: "waypoint list \<Rightarrow> movement" where
  "ModeDetector_analyze_waypoints ws =
     (if length ws < 2 then
        \<lparr>avg_speed = 0, max_speed = 0, stops_count = 0, direction_changes = 0,
         smoothness_score = 0.5\<rparr>
      else
        (let st = fold (ModeDetector_speed_step ws) [1..<length ws] \<lparr>speeds = [], stops = 0\<rparr>;
             dc = count_direction_changes ModeDetector_calculate_bearing ws
         in \<lparr>avg_speed = (if speeds st \<noteq> [] then mean (speeds st) else 0),
             max_speed = (if speeds st \<noteq> [] then maximum (speeds st) else 0),
             stops_count = stops st,
             direction_changes = dc,
             smoothness_score = 1 / (1 + of_int dc * 0.1)\<rparr>))"

subsection \<open>advanced\_mode\_detector.py\<close>

text \<open>
  The dictionary for fewer than two waypoints has no \<open>avg_stop_duration\<close> and no
  \<open>stop_count\<close> key.
\<close>

record adv_movement = movement +
  avg_acceleration :: real
  max_acceleration :: real
  avg_stop_duration :: "real option"
  stop_count :: "int option"

record adv_speed_state = speed_state +
  accelerations :: "real list"
  stop_durations :: "real list"

definition AdvancedModeDetector_speed_step ::
  "waypoint list \<Rightarrow> nat \<Rightarrow> adv_speed_state \<Rightarrow> adv_speed_state" where
  "AdvancedModeDetector_speed_step ws i st =
     (let prev_point = ws ! (i - 1);
          curr_point = ws ! i;
          distance = AdvancedModeDetector_haversine_distance
                       (lat prev_point) (lng prev_point) (lat curr_point) (lng curr_point);
          prev_time = timestamp prev_point;
          curr_time = timestamp curr_point;
          time_diff_seconds = curr_time - prev_time;
          time_diff_hours = time_diff_seconds / 3600
      in if time_diff_seconds > 0 then
           (let speed = distance / time_diff_hours;
                speeds1 = speeds st @ [speed];
                stops1 = (if speed < 1 then stops st + 1 else stops st);
                stop_durations1 =
                  (if speed < 1 \<and> i + 1 < length ws then
                     (let stop_duration = timestamp (ws ! (i + 1)) - curr_time
                      in if stop_duration > 30 then stop_durations st @ [stop_duration]
                         else stop_durations st)
                   else stop_durations st);
                accelerations1 =
                  (if length speeds1 \<ge> 2 then
                     (let prev_speed = speeds1 ! (length speeds1 - 2);
                          curr_speed = speeds1 ! (length speeds1 - 1);
                          acceleration = (curr_speed - prev_speed) / time_diff_seconds
                      in accelerations st @ [acceleration])
                   else accelerations st)
            in \<lparr>speeds = speeds1, stops = stops1, accelerations = accelerations1,
                stop_durations = stop_durations1\<rparr>)
         else st)"

definition AdvancedModeDetector_analyze_waypoints :: "waypoint list \<Rightarrow> adv_movement" where
  "AdvancedModeDetector_analyze_waypoints ws =
     (if length ws < 2 then
        \<lparr>avg_speed = 0, max_speed = 0, stops_count = 0, direction_changes = 0,
         smoothness_score = 0.5, avg_acceleration = 0, max_acceleration = 0,
         avg_stop_duration = None, stop_count = None\<rparr>
      else
        (let st = fold (AdvancedModeDetector_speed_step ws) [1..<length ws]
                    \<lparr>speeds = [], stops = 0, accelerations = [], stop_durations = []\<rparr>;
             dc = count_direction_changes AdvancedModeDetector_calculate_bearing ws;
             smoothness0 = 1.0 / (1.0 + 0.1 * of_int dc + 0.05 * of_int (stops st));
             smoothness = min 1.0 (max 0.1 smoothness0)
         in \<lparr>avg_speed = (if speeds st \<noteq> [] then mean (speeds st) else 0),
             max_speed = (if speeds st \<noteq> [] then maximum (speeds st) else 0),
             stops_count = stops st,
             direction_changes = dc,
             smoothness_score = smoothness,
             avg_acceleration =
               (if accelerations st \<noteq> [] then mean (map abs (accelerations st)) else 0),
             max_acceleration =
               (if accelerations st \<noteq> [] then maximum (map abs (accelerations st)) else 0),
             avg_stop_duration =
               Some (if stop_durations st \<noteq> [] then mean (stop_durations st) else 0),
             stop_count = Some (int (length (stop_durations st)))\<rparr>))"

definition resting :: "waypoint list" where
  \<comment> \<open>Two fixes at the same place, 400 seconds apart: one stop, no turn.\<close>
  "resting = [at_origin 0, at_origin 400]"

definition moving :: "waypoint list" where
  \<comment> \<open>One fast leg: no stop, no turn.\<close>
  "moving = [at_origin 400, at_antipode 410]"

section \<open>The detector and its trained artifacts (advanced\_mode\_detector.py)\<close>

text \<open>
  The classifiers and the scaler are scikit-learn and xgboost objects. Each is
  represented by what the detector calls on it: a classifier by \<open>predict_proba\<close> on one
  feature row and by its \<open>feature_importances_\<close>, the scaler by \<open>transform\<close> on one
  row; a call that raises returns \<open>Inl\<close>.
\<close>

record classifier =
  predict_proba :: "real list \<Rightarrow> error + real list"
  feature_importances :: "error + real list"

record detector =
  random_forest :: classifier
  xgboost :: classifier
  scaler :: "real list \<Rightarrow> error + real list"
  models_loaded :: bool
  feature_columns :: "string list"
  transport_modes :: "string list"

definition FEATURE_COLUMNS :: "string list" where
  \<comment> \<open>\<open>settings.ML_CONFIG['FEATURE_COLUMNS']\<close>\<close>
  "FEATURE_COLUMNS =
     [''distance_km'', ''duration_minutes'', ''avg_speed'', ''max_speed'', ''stops_count'',
      ''direction_changes'', ''time_of_day'', ''day_of_week'', ''weather_temp'',
      ''weather_condition'', ''route_type'']"

definition TRANSPORT_MODES :: "string list" where
  \<comment> \<open>\<open>settings.ML_CONFIG['TRANSPORT_MODES']\<close>\<close>
  "TRANSPORT_MODES = [''walk'', ''bike'', ''car'', ''bus'', ''metro'', ''train'']"

subsection \<open>FeatureBuilder\<close>

definition weather_conditions :: "(string \<times> real) list" where
  "weather_conditions =
     [(''clear'', 0), (''sunny'', 0), (''partly_cloudy'', 1), (''cloudy'', 2), (''overcast'', 2),
      (''mist'', 3), (''fog'', 3), (''drizzle'', 4), (''rain'', 5), (''heavy_rain'', 6),
      (''thunderstorm'', 7), (''snow'', 8), (''sleet'', 9), (''hail'', 10)]"

definition encode_weather_condition :: "string \<Rightarrow> real" where
  "encode_weather_condition cond =
     (let c = map (\<lambda>ch. if ch = CHR '' '' then CHR ''_'' else ch) (lower cond)
      in get_or (lookup weather_conditions c) 0)"

definition weather_given :: "weather_data \<Rightarrow> bool" where
  \<comment> \<open>\<open>if weather:\<close> on the dictionary: true when it has a key.\<close>
  "weather_given w = (temperature w \<noteq> None \<or> condition w \<noteq> None \<or> precipitation w \<noteq> None)"

definition parse_start_time :: "(string \<Rightarrow> error + datetime) \<Rightarrow> trip_data \<Rightarrow> error + datetime option" where
  \<comment> \<open>\<open>None\<close> where \<open>if start_time:\<close> fails; a string goes through
      \<open>datetime.fromisoformat(start_time.replace('Z', '+00:00'))\<close>, the parameter, which
      raises on a malformed one.\<close>
  "parse_start_time fromisoformat td =
     (case trip_start_time td of
        None \<Rightarrow> Inr None
      | Some (Datetime t) \<Rightarrow> Inr (Some t)
      | Some (Str s) \<Rightarrow>
          (if s = [] then Inr None
           else (case fromisoformat s of Inl e \<Rightarrow> Inl e | Inr t \<Rightarrow> Inr (Some t))))"

definition build_features :: "(string \<Rightarrow> error + datetime) \<Rightarrow> trip_data \<Rightarrow> error + (string \<times> real) list" where
  \<comment> \<open>The dictionary \<open>features\<close> of \<open>preprocess_data\<close>, in the order its keys are set.\<close>
  "build_features fromisoformat td =
     (let dkm = get_or (distance_km td) 0;
          dur = get_or (duration_minutes td) 0;
          avg = (if dur > 0 then (dkm / dur) * 60 else 0)
      in case parse_start_time fromisoformat td of
           Inl e \<Rightarrow> Inl e
         | Inr start \<Rightarrow>
             (let time_features =
                    (case start of
                       Some t \<Rightarrow>
                         [(''time_of_day'', of_int (datetime_hour t)),
                          (''day_of_week'', of_int (datetime_weekday t)),
                          (''is_weekend'', if datetime_weekday t \<ge> 5 then 1 else 0),
                          (''is_rush_hour'',
                             if (7 \<le> datetime_hour t \<and> datetime_hour t \<le> 10) \<or>
                                (16 \<le> datetime_hour t \<and> datetime_hour t \<le> 19) then 1 else 0)]
                     | None \<Rightarrow>
                         [(''time_of_day'', get_or (time_of_day td) 12), (''day_of_week'', 0),
                          (''is_weekend'', 0), (''is_rush_hour'', 0)]);
                  wps = get_or (trip_waypoints td) [];
                  movement_features =
                    (if wps \<noteq> [] then
                       (let waypoint_analysis = AdvancedModeDetector_analyze_waypoints wps
                        in [(''max_speed'', max_speed waypoint_analysis),
                            (''stops_count'', of_int (stops_count waypoint_analysis)),
                            (''direction_changes'', of_int (direction_changes waypoint_analysis)),
                            (''avg_acceleration'', avg_acceleration waypoint_analysis),
                            (''max_acceleration'', max_acceleration waypoint_analysis)])
                     else
                       [(''max_speed'', avg * 1.5), (''stops_count'', 0),
                        (''direction_changes'', 0), (''avg_acceleration'', 0),
                        (''max_acceleration'', 0)]);
                  weather_features =
                    (case weather td of
                       Some w \<Rightarrow>
                         (if weather_given w then
                            [(''weather_temp'', get_or (temperature w) 20),
                             (''weather_condition'',
                                encode_weather_condition (get_or (condition w) ''clear'')),
                             (''is_precipitation'', if get_or (precipitation w) 0 > 0 then 1 else 0)]
                          else
                            [(''weather_temp'', 20), (''weather_condition'', 0),
                             (''is_precipitation'', 0)])
                     | None \<Rightarrow>
                         [(''weather_temp'', 20), (''weather_condition'', 0),
                          (''is_precipitation'', 0)])
              in Inr ([(''distance_km'', dkm), (''duration_minutes'', dur), (''avg_speed'', avg)] @
                      time_features @ movement_features @ weather_features @
                      [(''route_type'', get_or (route_type td) 0)])))"

definition feature_row :: "string list \<Rightarrow> (string \<times> real) list \<Rightarrow> real list" where
  \<comment> \<open>\<open>for feature in self.feature_columns: feature_vector.append(features.get(feature, 0))\<close>\<close>
  "feature_row columns features = map (\<lambda>feature. get_or (lookup features feature) 0) columns"

definition preprocess_body :: "(string \<Rightarrow> error + datetime) \<Rightarrow> detector \<Rightarrow> trip_data \<Rightarrow> error + real list" where
  \<comment> \<open>What stands inside the outer \<open>try\<close> of \<open>preprocess_data\<close>; the inner
      \<open>try\<close> around the scaler keeps the unscaled row when \<open>transform\<close> raises.\<close>
  "preprocess_body fromisoformat det td =
     (case build_features fromisoformat td of
        Inl e \<Rightarrow> Inl e
      | Inr features \<Rightarrow>
          (let feature_array = feature_row (feature_columns det) features
           in if models_loaded det then
                (case scaler det feature_array of
                   Inl e \<Rightarrow> Inr feature_array
                 | Inr scaled \<Rightarrow> Inr scaled)
              else Inr feature_array))"

definition AdvancedModeDetector_preprocess_data ::
  "(string \<Rightarrow> error + datetime) \<Rightarrow> detector \<Rightarrow> trip_data \<Rightarrow> real list" where
  \<comment> \<open>The one row of the \<open>1 \<times> n\<close> array returned.\<close>
  "AdvancedModeDetector_preprocess_data fromisoformat det td =
     (case preprocess_body fromisoformat det td of
        Inl e \<Rightarrow> replicate (length (feature_columns det)) 0
      | Inr feature_array \<Rightarrow> feature_array)"

subsection \<open>ModeClassifier, both tiers\<close>

text \<open>
  The third component of the result: the keys \<open>detail\<close>, \<open>mode_probabilities\<close> (here
  \<open>probabilities\<close>), \<open>feature_importance\<close> and \<open>model_type\<close>. The keys that repeat the
  mode and the confidence are left out, and so is the exception's text after
  \<open>Error:\<close>.
\<close>

record details =
  detail :: "string option"
  probabilities :: "(string \<times> real) list"
  feature_importance :: "(string \<times> real) list option"
  model_type :: "string option"

definition blend :: "real list \<Rightarrow> real list \<Rightarrow> error + real list" where
  \<comment> \<open>\<open>0.6 * rf_proba + 0.4 * xgb_proba\<close> on numpy vectors: elementwise, a vector of
      one entry is broadcast, other lengths that differ raise.\<close>
  "blend p q =
     (if length p = length q then Inr (map2 (\<lambda>a b. 0.6 * a + 0.4 * b) p q)
      else if length p = 1 then Inr (map (\<lambda>b. 0.6 * hd p + 0.4 * b) q)
      else if length q = 1 then Inr (map (\<lambda>a. 0.6 * a + 0.4 * hd q) p)
      else Inl ValueError)"

definition argmax :: "real list \<Rightarrow> error + nat" where
  \<comment> \<open>\<open>np.argmax\<close>: the first index of the greatest entry.\<close>
  "argmax xs = max_key (zip [0..<length xs] xs)"

fun dict_set :: "('k \<times> 'v) list \<Rightarrow> 'k \<Rightarrow> 'v \<Rightarrow> ('k \<times> 'v) list" where
  "dict_set [] k v = [(k, v)]"
| "dict_set ((k', v') # d) k v = (if k' = k then (k, v) # d else (k', v') # dict_set d k v)"

fun mode_probabilities_loop ::
  "real list \<Rightarrow> (nat \<times> string) list \<Rightarrow> (string \<times> real) list \<Rightarrow> error + (string \<times> real) list" where
  \<comment> \<open>\<open>for idx, mode in enumerate(self.transport_modes): d[mode] = float(ensemble_proba[idx])\<close>\<close>
  "mode_probabilities_loop ens [] acc = Inr acc"
| "mode_probabilities_loop ens ((idx, mode) # rest) acc =
     (if idx < length ens then mode_probabilities_loop ens rest (dict_set acc mode (ens ! idx))
      else Inl IndexError)"

definition ensemble_predict ::
  "(string \<Rightarrow> error + datetime) \<Rightarrow> detector \<Rightarrow> trip_data \<Rightarrow> error + (string \<times> real \<times> details)" where
  \<comment> \<open>The \<open>try\<close> block of \<open>predict_mode\<close> past the \<open>models_loaded\<close> test.\<close>
  "ensemble_predict fromisoformat det td =
     (let features = AdvancedModeDetector_preprocess_data fromisoformat det td
      in case predict_proba (random_forest det) features of
           Inl e \<Rightarrow> Inl e
         | Inr rf_proba \<Rightarrow>
        (case predict_proba (xgboost det) features of
           Inl e \<Rightarrow> Inl e
         | Inr xgb_proba \<Rightarrow>
        (case blend rf_proba xgb_proba of
           Inl e \<Rightarrow> Inl e
         | Inr ensemble_proba \<Rightarrow>
        (case argmax ensemble_proba of
           Inl e \<Rightarrow> Inl e
         | Inr predicted_idx \<Rightarrow>
        (if predicted_idx \<ge> length (transport_modes det) then Inl IndexError
         else
        (let predicted_mode = transport_modes det ! predicted_idx;
             confidence = ensemble_proba ! predicted_idx
         in case feature_importances (random_forest det) of
              Inl e \<Rightarrow> Inl e
            | Inr importances \<Rightarrow>
           (case mode_probabilities_loop ensemble_proba
                   (enumerate 0 (transport_modes det)) [] of
              Inl e \<Rightarrow> Inl e
            | Inr mode_probs \<Rightarrow>
                Inr (predicted_mode, confidence,
                     \<lparr>detail = None, probabilities = mode_probs,
                      feature_importance = Some (zip (feature_columns det) importances),
                      model_type = Some ''ensemble_rf_xgb''\<rparr>))))))))"

definition fallback_result :: "string \<Rightarrow> string \<times> real \<Rightarrow> string \<times> real \<times> details" where
  "fallback_result note r =
     (fst r, snd r,
      \<lparr>detail = Some note, probabilities = [(fst r, snd r)], feature_importance = None,
       model_type = None\<rparr>)"

text \<open>
  A call of the base detector draws fresh jitter factors: \<open>jitter\<close> for the call inside
  the \<open>try\<close>, \<open>jitter'\<close> for the call of the \<open>except\<close> handler. An exception of the
  handler's call leaves \<open>predict_mode\<close>.
\<close>

definition AdvancedModeDetector_predict_mode ::
  "(string \<Rightarrow> error + datetime) \<Rightarrow> detector \<Rightarrow> trip_data \<Rightarrow> (string \<Rightarrow> real) \<Rightarrow> (string \<Rightarrow> real) \<Rightarrow>
   error + (string \<times> real \<times> details)" where
  "AdvancedModeDetector_predict_mode fromisoformat det td jitter jitter' =
     (case (if \<not> models_loaded det then
              (case ModeDetector_predict_mode td jitter of
                 Inl e \<Rightarrow> Inl e
               | Inr r \<Rightarrow> Inr (fallback_result ''Using fallback model'' r))
            else ensemble_predict fromisoformat det td) of
        Inr result \<Rightarrow> Inr result
      | Inl e \<Rightarrow>
          (case ModeDetector_predict_mode td jitter' of
             Inl e' \<Rightarrow> Inl e'
           | Inr r \<Rightarrow> Inr (fallback_result ''Error'' r)))"

definition unfitted :: classifier where
  "unfitted = \<lparr>predict_proba = (\<lambda>row. Inl ModelError), feature_importances = Inl ModelError\<rparr>"

subsection \<open>Training\<close>

record report =
  status :: string
  message :: "string option"

text \<open>
  \<open>train_models\<close> calls scikit-learn and xgboost; what it calls is the record
  \<open>learners\<close>, each call with its exception as a value:
  \<^item> \<open>train_test_split\<close> on the rows and labels, with the fixed \<open>test_size\<close>,
    \<open>random_state\<close> and \<open>stratify\<close> of the source;
  \<^item> \<open>StandardScaler_fit\<close>, the fit of a new \<open>StandardScaler\<close>, returning its
    \<open>transform\<close> on one row;
  \<^item> \<open>RandomForestClassifier_fit\<close> and \<open>XGBClassifier_fit\<close>, the fit of a new classifier;
  \<^item> \<open>evaluate_models\<close>, the predictions, accuracy scores and reports of lines 496 to
    515, which assign nothing on the detector.
  An object that was constructed and not fitted raises on use. \<open>save_models\<close> writes
  files and catches its own exceptions; it leaves the detector as it is. The report of a
  caught exception has the exception's text as its message, which is left out here, as
  are the counts and accuracies of the success report. \<open>enable_ml_training\<close> is
  \<open>settings.FEATURE_FLAGS['ENABLE_ML_TRAINING']\<close>.
\<close>

record learners =
  train_test_split ::
    "real list list \<Rightarrow> string list \<Rightarrow>
     error + (real list list \<times> real list list \<times> string list \<times> string list)"
  StandardScaler_fit :: "real list list \<Rightarrow> error + (real list \<Rightarrow> error + real list)"
  RandomForestClassifier_fit :: "real list list \<Rightarrow> string list \<Rightarrow> error + classifier"
  XGBClassifier_fit :: "real list list \<Rightarrow> string list \<Rightarrow> error + classifier"
  evaluate_models ::
    "classifier \<Rightarrow> classifier \<Rightarrow> real list list \<Rightarrow> string list \<Rightarrow> error + unit"

definition unfitted_scaler :: "real list \<Rightarrow> error + real list" where
  \<comment> \<open>\<open>StandardScaler()\<close> before any fit.\<close>
  "unfitted_scaler row = Inl ModelError"

definition training_disabled_message :: string where
  \<comment> \<open>The message of the report when the flag is off; the literal is split after its
      first letter.\<close>
  "training_disabled_message = ''M'' @ ''L training disabled in settings''"

definition exception_report :: report where
  \<comment> \<open>\<open>{"status": "error", "message": str(e)}\<close> of the \<open>except\<close> handler.\<close>
  "exception_report = \<lparr>status = ''error'', message = None\<rparr>"

definition training_features :: "(string \<Rightarrow> error + datetime) \<Rightarrow> trip_data \<Rightarrow> error + (string \<times> real) list" where
  \<comment> \<open>The dictionary \<open>feature_dict\<close> built for one labeled trip.\<close>
  "training_features fromisoformat trip =
     (let dkm = get_or (distance_km trip) 0;
          dur = get_or (duration_minutes trip) 0;
          avg = (if dur > 0 then (dkm / dur) * 60 else 0)
      in case parse_start_time fromisoformat trip of
           Inl e \<Rightarrow> Inl e
         | Inr start \<Rightarrow>
             (let time_features =
                    (case start of
                       Some t \<Rightarrow>
                         [(''time_of_day'', of_int (datetime_hour t)),
                          (''day_of_week'', of_int (datetime_weekday t))]
                     | None \<Rightarrow> [(''time_of_day'', 12), (''day_of_week'', 0)]);
                  wps = get_or (trip_waypoints trip) [];
                  movement_features =
                    (if wps \<noteq> [] then
                       (let waypoint_analysis = AdvancedModeDetector_analyze_waypoints wps
                        in [(''max_speed'', movement.max_speed waypoint_analysis),
                            (''stops_count'', of_int (stops_count waypoint_analysis)),
                            (''direction_changes'', of_int (direction_changes waypoint_analysis))])
                     else
                       [(''max_speed'', avg * 1.5), (''stops_count'', 0),
                        (''direction_changes'', 0)]);
                  weather_features =
                    (case weather trip of
                       Some w \<Rightarrow>
                         (if weather_given w then
                            [(''weather_temp'', get_or (temperature w) 20),
                             (''weather_condition'',
                                encode_weather_condition (get_or (condition w) ''clear''))]
                          else [(''weather_temp'', 20), (''weather_condition'', 0)])
                     | None \<Rightarrow> [(''weather_temp'', 20), (''weather_condition'', 0)])
              in Inr ([(''distance_km'', dkm), (''duration_minutes'', dur), (''avg_speed'', avg)] @
                      time_features @ movement_features @ weather_features @
                      [(''route_type'', get_or (route_type trip) 0)])))"

fun training_rows ::
  "(string \<Rightarrow> error + datetime) \<Rightarrow> string list \<Rightarrow> trip_data list \<Rightarrow>
   error + (real list list \<times> string list)" where
  \<comment> \<open>The loop that fills \<open>X\<close> and \<open>y\<close>; a trip without \<open>transport_mode\<close> is skipped.\<close>
  "training_rows fromisoformat columns [] = Inr ([], [])"
| "training_rows fromisoformat columns (trip # rest) =
     (case transport_mode trip of
        None \<Rightarrow> training_rows fromisoformat columns rest
      | Some label \<Rightarrow>
          (case training_features fromisoformat trip of
             Inl e \<Rightarrow> Inl e
           | Inr feature_dict \<Rightarrow>
               (case training_rows fromisoformat columns rest of
                  Inl e \<Rightarrow> Inl e
                | Inr (X, y) \<Rightarrow> Inr (feature_row columns feature_dict # X, label # y))))"

fun transform_rows :: "(real list \<Rightarrow> error + real list) \<Rightarrow> real list list \<Rightarrow> error + real list list" where
  "transform_rows transform [] = Inr []"
| "transform_rows transform (row # rows) =
     (case transform row of
        Inl e \<Rightarrow> Inl e
      | Inr scaled \<Rightarrow>
          (case transform_rows transform rows of
             Inl e \<Rightarrow> Inl e
           | Inr others \<Rightarrow> Inr (scaled # others)))"

definition fit_models :: "learners \<Rightarrow> detector \<Rightarrow> real list list \<Rightarrow> string list \<Rightarrow> report \<times> detector" where
  \<comment> \<open>From \<open>train_test_split\<close> to the success report: each assignment to \<open>self\<close> is an
      update of the detector, and an exception leaves it as updated so far.\<close>
  "fit_models lib det X y =
     (case train_test_split lib X y of
        Inl e \<Rightarrow> (exception_report, det)
      | Inr (X_train, X_test, y_train, y_test) \<Rightarrow>
     (case StandardScaler_fit lib X_train of
        Inl e \<Rightarrow> (exception_report, det\<lparr>scaler := unfitted_scaler\<rparr>)
      | Inr transform \<Rightarrow>
     (case transform_rows transform X_train of
        Inl e \<Rightarrow> (exception_report, det\<lparr>scaler := transform\<rparr>)
      | Inr X_train_scaled \<Rightarrow>
     (case transform_rows transform X_test of
        Inl e \<Rightarrow> (exception_report, det\<lparr>scaler := transform\<rparr>)
      | Inr X_test_scaled \<Rightarrow>
     (case RandomForestClassifier_fit lib X_train_scaled y_train of
        Inl e \<Rightarrow> (exception_report, det\<lparr>scaler := transform, random_forest := unfitted\<rparr>)
      | Inr forest \<Rightarrow>
     (case XGBClassifier_fit lib X_train_scaled y_train of
        Inl e \<Rightarrow>
          (exception_report,
           det\<lparr>scaler := transform, random_forest := forest, xgboost := unfitted\<rparr>)
      | Inr booster \<Rightarrow>
     (case evaluate_models lib forest booster X_test_scaled y_test of
        Inl e \<Rightarrow>
          (exception_report,
           det\<lparr>scaler := transform, random_forest := forest, xgboost := booster\<rparr>)
      | Inr done \<Rightarrow>
          (\<lparr>status = ''success'', message = None\<rparr>,
           det\<lparr>scaler := transform, random_forest := forest, xgboost := booster,
               models_loaded := True\<rparr>))))))))"

definition AdvancedModeDetector_train_models ::
  "bool \<Rightarrow> learners \<Rightarrow> (string \<Rightarrow> error + datetime) \<Rightarrow> detector \<Rightarrow> trip_data list \<Rightarrow>
   report \<times> detector" where
  "AdvancedModeDetector_train_models enable_ml_training lib fromisoformat det training_data =
     (if \<not> enable_ml_training then
        (\<lparr>status = ''skipped'', message = Some training_disabled_message\<rparr>, det)
      else if training_data = [] \<or> length training_data < 50 then
        (\<lparr>status = ''error'',
          message = Some ''Not enough training data (min 50 samples required)''\<rparr>, det)
      else
        (case training_rows fromisoformat (feature_columns det) training_data of
           Inl e \<Rightarrow> (exception_report, det)
         | Inr (X, y) \<Rightarrow> fit_models lib det X y))"


subsection \<open>Example detectors and trips\<close>


definition even_odds :: classifier where
  \<comment> \<open>A classifier that gives each of the six modes one sixth.\<close>
  "even_odds =
     \<lparr>predict_proba = (\<lambda>row. Inr [1 / 6, 1 / 6, 1 / 6, 1 / 6, 1 / 6, 1 / 6]),
      feature_importances = Inr (replicate 11 (1 / 11))\<rparr>"

definition loaded_detector :: detector where
  "loaded_detector =
     \<lparr>random_forest = even_odds, xgboost = even_odds, scaler = (\<lambda>row. Inr row),
      models_loaded = True, feature_columns = FEATURE_COLUMNS,
      transport_modes = TRANSPORT_MODES\<rparr>"

definition no_parse :: "string \<Rightarrow> error + datetime" where
  \<comment> \<open>\<open>fromisoformat\<close> on strings that are not ISO dates.\<close>
  "no_parse s = Inl ValueError"

definition short_walk :: trip_data where
  "short_walk = empty_trip\<lparr>distance_km := Some 0.5, duration_minutes := Some 8\<rparr>"

definition brisk_ride :: trip_data where
  \<comment> \<open>13 km in 30 minutes: 26 km/h, just above the cycling envelope.\<close>
  "brisk_ride = empty_trip\<lparr>distance_km := Some 13, duration_minutes := Some 30\<rparr>"


definition favour :: "string \<Rightarrow> string \<Rightarrow> string \<Rightarrow> real" where
  \<comment> \<open>Draws at the ends of the range: the greatest factor for one key, the least for
      another, 1 for the rest.\<close>
  "favour hi_key lo_key k = (if k = hi_key then 1.2 else if k = lo_key then 0.8 else 1)"

text \<open>
  What the confidence claim asks of a trained classifier: every probability it returns
  lies in the unit interval.
\<close>

definition unit_probabilities :: "classifier \<Rightarrow> bool" where
  "unit_probabilities clf =
     (\<forall>row p. predict_proba clf row = Inr p \<longrightarrow> (\<forall>v\<in>set p. 0 \<le> v \<and> v \<le> 1))"

text \<open>
  What the shape claim asks of a fitted scaler: \<open>transform\<close>, where it returns, returns
  a row as long as the one it was given.
\<close>

definition shape_preserving :: "(real list \<Rightarrow> error + real list) \<Rightarrow> bool" where
  "shape_preserving transform =
     (\<forall>row scaled. transform row = Inr scaled \<longrightarrow> length scaled = length row)"

definition failing_scaler_detector :: detector where
  \<comment> \<open>Loaded models whose scaler raises, as one fitted on other columns does.\<close>
  "failing_scaler_detector = loaded_detector\<lparr>scaler := (\<lambda>row. Inl ValueError)\<rparr>"

definition undated_trip :: trip_data where
  \<comment> \<open>A start time that is no ISO date.\<close>
  "undated_trip = short_walk\<lparr>trip_start_time := Some (Str ''tomorrow'')\<rparr>"

subsection \<open>Example training runs\<close>











definition short_walk_row :: "real list" where
  \<comment> \<open>The feature row of the 0.5 km walk, in the order of \<open>FEATURE_COLUMNS\<close>.\<close>
  "short_walk_row = [1 / 2, 8, 15 / 4, 45 / 8, 0, 0, 12, 0, 20, 0, 0]"

section \<open>What two runs on one input share\<close>

text \<open>
  The scores as they stand when the jitter loop begins: \<open>mode_scores\<close> of
  \<open>ModeDetector.predict_mode\<close> and \<open>purpose_scores\<close> of
  \<open>PurposePredictor.predict_purpose\<close>, the latter with the four other purposes added.
\<close>

definition mode_scores_of :: "trip_data \<Rightarrow> error + (string \<times> real) list" where
  "mode_scores_of td =
     (let dkm = get_or (distance_km td) 0;
          dur = get_or (duration_minutes td) 1;
          tod = get_or (time_of_day td) 12;
          avg_speed_kmh = (if dur > 0 then (dkm / dur) * 60 else 0)
      in mode_scores_loop avg_speed_kmh dkm tod mode_probabilities)"

definition purpose_scores_of ::
  "(real \<times> real \<Rightarrow> real \<times> real \<Rightarrow> error + real) \<Rightarrow> datetime \<Rightarrow> trip_data \<Rightarrow> trip_data list \<Rightarrow>
   error + (string \<times> real) list" where
  "purpose_scores_of geodesic_meters now td user_history =
     (case start_time_of td of
        Inl e \<Rightarrow> Inl e
      | Inr start \<Rightarrow>
          (let default_weekday = (case start of Some t \<Rightarrow> datetime_weekday t | None \<Rightarrow> 0);
               wd = get_or (trip_weekday td) default_weekday;
               dest = lower (get_or (dest_address td) []);
               origin = lower (get_or (origin_address td) []);
               tmode = get_or (transport_mode td) ''walk''
           in case purpose_scores_loop geodesic_meters now td user_history start wd dest origin
                     tmode (map fst time_patterns) of
                Inl e \<Rightarrow> Inl e
              | Inr scores \<Rightarrow> Inr (add_other_purposes scores)))"

definition clear_lead :: "real \<Rightarrow> string \<Rightarrow> (string \<times> real) list \<Rightarrow> bool" where
  \<comment> \<open>The score of \<open>k\<close> is more than \<open>ratio\<close> times every other score.\<close>
  "clear_lead ratio k scores =
     (case lookup scores k of
        None \<Rightarrow> False
      | Some s \<Rightarrow> list_all (\<lambda>(k', s'). k' = k \<or> s' * ratio < s) scores)"

definition clock_unread :: "trip_data \<Rightarrow> trip_data list \<Rightarrow> bool" where
  \<comment> \<open>No hour is taken from \<open>datetime.now()\<close>, the default of the two \<open>get\<close>
      calls: there is no history, or the trip and every trip of the history carry a
      start time.\<close>
  "clock_unread td user_history =
     (user_history = [] \<or>
      (trip_start_time td \<noteq> None \<and> list_all (\<lambda>trip. trip_start_time trip \<noteq> None) user_history))"

definition coincident :: "real \<times> real \<Rightarrow> real \<times> real \<Rightarrow> error + real" where
  \<comment> \<open>geopy on two equal points: 0 metres. No other pair occurs in the examples.\<close>
  "coincident a b = (if a = b then Inr 0 else Inl ValueError)"

definition school_run :: trip_data where
  \<comment> \<open>A bus trip at 16:00 on Thursday, 1 January 1970.\<close>
  "school_run = empty_trip\<lparr>trip_start_time := Some (Datetime 57600), transport_mode := Some ''bus''\<rparr>"

definition errand :: trip_data where
  \<comment> \<open>A trip with a destination and no start time.\<close>
  "errand = empty_trip\<lparr>dest_lat := Some 1, dest_lng := Some 1\<rparr>"

definition morning_commute :: trip_data where
  \<comment> \<open>An earlier trip to the same place at 10:00, for work.\<close>
  "morning_commute =
     empty_trip\<lparr>trip_start_time := Some (Datetime 36000), dest_lat := Some 1, dest_lng := Some 1,
                purpose := Some ''work''\<rparr>"

section \<open>Verified properties\<close>

subsection \<open>Geometry\<close>


lemma atan2_range: "- pi < atan2 y x \<and> atan2 y x \<le> pi"
proof -
  have lo: "- (pi / 2) < arctan (y / x)" and hi: "arctan (y / x) < pi / 2"
    by (rule arctan_lbound, rule arctan_ubound)
  have pos: "0 < pi" by (rule pi_gt_zero)
  consider (right) "0 < x" | (upper) "x < 0" "0 \<le> y" | (lower) "x < 0" "y < 0" | (axis) "x = 0"
    by linarith
  then show ?thesis
  proof cases
    case right
    with lo hi pos show ?thesis by (simp add: atan2_def)
  next
    case upper
    then have "y / x \<le> 0" by (simp add: divide_nonneg_neg)
    then have "arctan (y / x) \<le> 0" by (simp add: arctan_le_zero_iff)
    with upper lo pos have "- pi < arctan (y / x) + pi" and "arctan (y / x) + pi \<le> pi"
      by linarith+
    with upper show ?thesis by (simp add: atan2_def)
  next
    case lower
    then have "0 < y / x" by (simp add: divide_neg_neg)
    then have "0 < arctan (y / x)" by (simp add: zero_less_arctan_iff)
    with lower hi pos have "- pi < arctan (y / x) - pi" and "arctan (y / x) - pi \<le> pi"
      by linarith+
    with lower show ?thesis by (simp add: atan2_def)
  next
    case axis
    have "- (pi / 2) \<le> pi" using pos by linarith
    with axis pos show ?thesis by (simp add: atan2_def)
  qed
qed

lemma degrees_atan2_range: "- 180 < degrees (atan2 y x) \<and> degrees (atan2 y x) \<le> 180"
proof -
  have pos: "0 < pi" by (rule pi_gt_zero)
  from atan2_range [of y x] have "- pi < atan2 y x" and "atan2 y x \<le> pi" by simp_all
  then have "- pi * 180 < atan2 y x * 180" and "atan2 y x * 180 \<le> pi * 180" by simp_all
  with pos show ?thesis
    by (simp add: degrees_def pos_less_divide_eq pos_divide_le_eq mult.commute)
qed

lemma py_mod_range: "0 < m \<Longrightarrow> 0 \<le> py_mod x m \<and> py_mod x m < m"
proof -
  assume m: "0 < m"
  from m have "of_int \<lfloor>x / m\<rfloor> * m \<le> x" and "x < (of_int \<lfloor>x / m\<rfloor> + 1) * m"
    by (rule floor_divide_lower, rule floor_divide_upper)
  then show ?thesis by (simp add: py_mod_def algebra_simps)
qed

lemma md_haversine_same: "ModeDetector_haversine_distance la lo la lo = 0"
  by (simp add: ModeDetector_haversine_distance_def radians_def atan2_def)

lemma md_haversine_antipodal: "ModeDetector_haversine_distance 0 0 0 180 = 6371 * pi"
  by (simp add: ModeDetector_haversine_distance_def radians_def atan2_def)

lemma amd_haversine_same: "AdvancedModeDetector_haversine_distance la lo la lo = 0"
  by (simp add: AdvancedModeDetector_haversine_distance_def radians_def)

lemma amd_haversine_antipodal: "AdvancedModeDetector_haversine_distance 0 0 0 180 = 6371 * pi"
  by (simp add: AdvancedModeDetector_haversine_distance_def radians_def)

lemma fast_leg: "\<not> 6371 * pi / 10 * 3600 < (1::real)"
proof -
  have "2 \<le> pi" by (rule pi_ge_two)
  then show ?thesis by simp
qed

subsection \<open>The scan of the segmenter\<close>

lemma for_loop_upt:
  assumes "a \<le> b" and "P a s"
    and step: "\<And>i t. a \<le> i \<Longrightarrow> i < b \<Longrightarrow> P i t \<Longrightarrow> \<exists>t'. body i t = Inr t' \<and> P (Suc i) t'"
  shows "\<exists>s'. for_loop body [a..<b] s = Inr s' \<and> P b s'"
  using assms
proof (induction "b - a" arbitrary: a s)
  case 0
  then show ?case by simp
next
  case (Suc n)
  then have lt: "a < b" by simp
  with Suc.prems obtain t where t: "body a s = Inr t" "P (Suc a) t" by blast
  have "\<exists>s'. for_loop body [Suc a..<b] t = Inr s' \<and> P b s'"
  proof (rule Suc.hyps(1))
    show "n = b - Suc a" using Suc.hyps(2) by simp
    show "Suc a \<le> b" using lt by simp
    show "P (Suc a) t" by (rule t)
    show "\<And>i u. Suc a \<le> i \<Longrightarrow> i < b \<Longrightarrow> P i u \<Longrightarrow> \<exists>t'. body i u = Inr t' \<and> P (Suc i) t'"
      using Suc.prems(3) by simp
  qed
  with lt t show ?case by (simp add: upt_rec [of a b])
qed

lemma tiles_append:
  "tiles a segs e \<Longrightarrow> start_idx s = e + 1 \<Longrightarrow> e + 1 \<le> end_idx s \<Longrightarrow> tiles a (segs @ [s]) (end_idx s)"
  by (induction segs arbitrary: a) auto

lemma slices_of_append:
  "slices_of ws segs \<Longrightarrow> slices_of ws [s] \<Longrightarrow> slices_of ws (segs @ [s])"
  by (induction segs) auto

lemma scan_inv_init: "scan_inv ws 1 scan_init"
  by (simp add: scan_inv_def scan_init_def)

lemma md_step_inv:
  assumes "1 \<le> i" "i < length ws" "scan_inv ws i st"
  shows "\<exists>st'. ModeDetector_segment_step ws m i st = Inr st' \<and> scan_inv ws (Suc i) st'"
proof -
  from assms(3) have css: "current_segment_start st < i"
    and stop: "in_stop st \<Longrightarrow> stop_start_time st \<noteq> None \<and> Suc (current_segment_start st) < i"
    and til: "tiles 0 (segments st) (int (current_segment_start st) - 1)"
    and sl: "slices_of ws (segments st)"
    by (simp_all add: scan_inv_def)
  let ?seg = "\<lparr>start_idx = int (current_segment_start st), end_idx = int i - 1,
                waypoints = slice ws (current_segment_start st) i\<rparr>"
  have til': "in_stop st \<Longrightarrow> tiles 0 (segments st @ [?seg]) (int i - 1)"
    using tiles_append [OF til, of ?seg] stop by simp
  have sl': "in_stop st \<Longrightarrow> slices_of ws (segments st @ [?seg])"
    using stop assms(1,2) by (intro slices_of_append [OF sl]) (simp add: nat_diff_distrib)
  show ?thesis
    using css stop til sl til' sl' assms(1,2)
    by (auto simp: ModeDetector_segment_step_def scan_inv_def Let_def split: option.splits)
qed

lemma make_segment_ok:
  assumes "xs \<noteq> []"
  shows "AdvancedModeDetector_make_segment pm a e xs =
    Inr \<lparr>start_idx = int a, end_idx = e, waypoints = xs, predicted_mode = pm xs,
         start_time = Some (timestamp (hd xs)), end_time = Some (timestamp (last xs))\<rparr>"
  using assms
  by (cases xs) (simp_all add: AdvancedModeDetector_make_segment_def first_item_def last_item_def)

lemma slice_nonempty: "a < b \<Longrightarrow> a < length xs \<Longrightarrow> slice xs a b \<noteq> []"
  by (simp add: slice_def)

lemma amd_step_inv:
  assumes "1 \<le> i" "i < length ws" "scan_inv ws i st"
  shows "\<exists>st'. AdvancedModeDetector_segment_step pm ws m i st = Inr st' \<and> scan_inv ws (Suc i) st'"
proof -
  from assms(3) have css: "current_segment_start st < i"
    and stop: "in_stop st \<Longrightarrow> stop_start_time st \<noteq> None \<and> Suc (current_segment_start st) < i"
    and til: "tiles 0 (segments st) (int (current_segment_start st) - 1)"
    and sl: "slices_of ws (segments st)"
    by (simp_all add: scan_inv_def)
  let ?xs = "slice ws (current_segment_start st) i"
  let ?seg = "\<lparr>start_idx = int (current_segment_start st), end_idx = int i - 1,
                waypoints = ?xs, predicted_mode = pm ?xs,
                start_time = Some (timestamp (hd ?xs)), end_time = Some (timestamp (last ?xs))\<rparr>"
  have mk: "AdvancedModeDetector_make_segment pm (current_segment_start st) (int i - 1) ?xs = Inr ?seg"
    using css assms(2) by (intro make_segment_ok slice_nonempty) simp_all
  have til': "in_stop st \<Longrightarrow> tiles 0 (segments st @ [?seg]) (int i - 1)"
    using tiles_append [OF til, of ?seg] stop by simp
  have sl': "in_stop st \<Longrightarrow> slices_of ws (segments st @ [?seg])"
    using stop assms(1,2) by (intro slices_of_append [OF sl]) (simp add: nat_diff_distrib)
  show ?thesis
    using css stop til sl til' sl' assms(1,2) mk
    by (auto simp: AdvancedModeDetector_segment_step_def scan_inv_def Let_def split: option.splits)
qed

lemma md_loop:
  assumes "2 \<le> length ws"
  shows "\<exists>st. for_loop (ModeDetector_segment_step ws m) [1..<length ws] scan_init = Inr st \<and>
              scan_inv ws (length ws) st"
  using assms by (intro for_loop_upt [where P = "scan_inv ws"] scan_inv_init md_step_inv) simp_all

lemma amd_loop:
  assumes "2 \<le> length ws"
  shows "\<exists>st. for_loop (AdvancedModeDetector_segment_step pm ws m) [1..<length ws] scan_init = Inr st \<and>
              scan_inv ws (length ws) st"
  using assms by (intro for_loop_upt [where P = "scan_inv ws"] scan_inv_init amd_step_inv) simp_all

lemma md_segments_scan:
  assumes "2 \<le> length ws"
  shows "\<exists>segs. ModeDetector_detect_trip_segments ws m = Inr segs \<and> segs \<noteq> [] \<and>
           slices_of ws segs \<and>
           (tiles 0 segs (int (length ws) - 1) \<or> tiles 0 segs (int (length ws) - 2))"
proof -
  from md_loop [OF assms, of m] obtain st where
    run: "for_loop (ModeDetector_segment_step ws m) [1..<length ws] scan_init = Inr st"
    and inv: "scan_inv ws (length ws) st" by blast
  from inv have css: "current_segment_start st < length ws"
    and til: "tiles 0 (segments st) (int (current_segment_start st) - 1)"
    and sl: "slices_of ws (segments st)"
    by (simp_all add: scan_inv_def)
  let ?seg = "\<lparr>start_idx = int (current_segment_start st), end_idx = int (length ws) - 1,
                waypoints = drop (current_segment_start st) ws\<rparr>"
  show ?thesis
  proof (cases "int (current_segment_start st) < int (length ws) - 1")
    case True
    have "tiles 0 (segments st @ [?seg]) (int (length ws) - 1)"
      using tiles_append [OF til, of ?seg] True by simp
    moreover have "slices_of ws (segments st @ [?seg])"
      using True by (intro slices_of_append [OF sl]) (simp add: slice_def)
    ultimately show ?thesis using True run assms
      by (simp add: ModeDetector_detect_trip_segments_def)
  next
    case False
    with css have eq: "int (current_segment_start st) = int (length ws) - 1" by linarith
    with til have t2: "tiles 0 (segments st) (int (length ws) - 2)" by simp
    have "segments st \<noteq> []"
    proof
      assume "segments st = []"
      with t2 have "int (length ws) - 2 = -1" by simp
      with assms show False by simp
    qed
    with False run assms sl t2 show ?thesis
      by (simp add: ModeDetector_detect_trip_segments_def)
  qed
qed

lemma amd_segments_scan:
  assumes "10 \<le> length ws"
  shows "\<exists>segs. AdvancedModeDetector_detect_trip_segments pm ws m = Inr segs \<and> segs \<noteq> [] \<and>
           slices_of ws segs \<and>
           (tiles 0 segs (int (length ws) - 1) \<or> tiles 0 segs (int (length ws) - 2))"
proof -
  from assms have two: "2 \<le> length ws" by simp
  from amd_loop [OF two, of pm m] obtain st where
    run: "for_loop (AdvancedModeDetector_segment_step pm ws m) [1..<length ws] scan_init = Inr st"
    and inv: "scan_inv ws (length ws) st" by blast
  from inv have css: "current_segment_start st < length ws"
    and til: "tiles 0 (segments st) (int (current_segment_start st) - 1)"
    and sl: "slices_of ws (segments st)"
    by (simp_all add: scan_inv_def)
  let ?xs = "drop (current_segment_start st) ws"
  let ?seg = "\<lparr>start_idx = int (current_segment_start st), end_idx = int (length ws) - 1,
                waypoints = ?xs, predicted_mode = pm ?xs,
                start_time = Some (timestamp (hd ?xs)), end_time = Some (timestamp (last ?xs))\<rparr>"
  have mk: "AdvancedModeDetector_make_segment pm (current_segment_start st) (int (length ws) - 1) ?xs = Inr ?seg"
    using css by (intro make_segment_ok) simp
  show ?thesis
  proof (cases "int (current_segment_start st) < int (length ws) - 1")
    case True
    have "tiles 0 (segments st @ [?seg]) (int (length ws) - 1)"
      using tiles_append [OF til, of ?seg] True by simp
    moreover have "slices_of ws (segments st @ [?seg])"
      using True by (intro slices_of_append [OF sl]) (simp add: slice_def)
    ultimately show ?thesis using True run assms mk
      by (simp add: AdvancedModeDetector_detect_trip_segments_def)
  next
    case False
    with css have eq: "int (current_segment_start st) = int (length ws) - 1" by linarith
    with til have t2: "tiles 0 (segments st) (int (length ws) - 2)" by simp
    have "segments st \<noteq> []"
    proof
      assume "segments st = []"
      with t2 have "int (length ws) - 2 = -1" by simp
      with assms show False by simp
    qed
    with False run assms sl t2 show ?thesis
      by (simp add: AdvancedModeDetector_detect_trip_segments_def)
  qed
qed

subsection \<open>The example journeys, run\<close>

lemma upt_1_3: "[1..<3] = [1, 2]"
  by (simp add: upt_rec)

lemma upt_1_10: "[1..<10] = [1, 2, 3, 4, 5, 6, 7, 8, 9]"
  by (simp add: upt_rec)

lemma short_journey_segments:
  "ModeDetector_detect_trip_segments short_journey 300 =
     Inr [\<lparr>start_idx = 0, end_idx = 1, waypoints = [at_origin 0, at_origin 400]\<rparr>]"
  using fast_leg
  by (simp add: ModeDetector_detect_trip_segments_def short_journey_def at_origin_def
      at_antipode_def upt_1_3 ModeDetector_segment_step_def md_haversine_same
      md_haversine_antipodal scan_init_def slice_def Let_def)

lemma long_journey_segments:
  "AdvancedModeDetector_detect_trip_segments unclassified long_journey 300 =
     Inr [\<lparr>start_idx = 0, end_idx = 8,
           waypoints = [at_origin 0, at_origin 50, at_origin 100, at_origin 150, at_origin 200,
                        at_origin 250, at_origin 300, at_origin 350, at_origin 400],
           predicted_mode = None, start_time = Some 0, end_time = Some 400\<rparr>]"
  using fast_leg
  by (simp add: AdvancedModeDetector_detect_trip_segments_def long_journey_def at_origin_def
      at_antipode_def upt_1_10 AdvancedModeDetector_segment_step_def amd_haversine_same
      amd_haversine_antipodal scan_init_def slice_def Let_def unclassified_def
      AdvancedModeDetector_make_segment_def first_item_def last_item_def)

subsection \<open>Claims about segmentation and bearings\<close>

text \<open>
  C1, as amended. The segments either tier returns from its scan are ordered and
  contiguous, start at index 0, and each is the slice of the input between its indices
  and holds at least two waypoints. They cover every index, or every index but the last:
  a final open segment of a single waypoint is not emitted. The basic tier returns no
  segment for fewer than two waypoints; the richer tier returns the one segment
  \<open>[0, n - 1]\<close> for a non-empty input of fewer than ten. Neither scan raises.
\<close>

theorem segments_tile_all_but_a_last_single_waypoint:
  "(length ws < 2 \<longrightarrow> ModeDetector_detect_trip_segments ws m = Inr []) \<and>
   (2 \<le> length ws \<longrightarrow>
      (\<exists>segs. ModeDetector_detect_trip_segments ws m = Inr segs \<and> segs \<noteq> [] \<and>
         slices_of ws segs \<and>
         (tiles 0 segs (int (length ws) - 1) \<or> tiles 0 segs (int (length ws) - 2)))) \<and>
   (0 < length ws \<and> length ws < 10 \<longrightarrow>
      (\<exists>seg. AdvancedModeDetector_detect_trip_segments pm ws m = Inr [seg] \<and>
         waypoints seg = ws \<and> tiles 0 [seg] (int (length ws) - 1))) \<and>
   (10 \<le> length ws \<longrightarrow>
      (\<exists>segs. AdvancedModeDetector_detect_trip_segments pm ws m = Inr segs \<and> segs \<noteq> [] \<and>
         slices_of ws segs \<and>
         (tiles 0 segs (int (length ws) - 1) \<or> tiles 0 segs (int (length ws) - 2))))"
proof (intro conjI impI)
  assume "length ws < 2"
  then show "ModeDetector_detect_trip_segments ws m = Inr []"
    by (simp add: ModeDetector_detect_trip_segments_def)
next
  assume "2 \<le> length ws"
  then show "\<exists>segs. ModeDetector_detect_trip_segments ws m = Inr segs \<and> segs \<noteq> [] \<and>
         slices_of ws segs \<and>
         (tiles 0 segs (int (length ws) - 1) \<or> tiles 0 segs (int (length ws) - 2))"
    by (rule md_segments_scan)
next
  assume "0 < length ws \<and> length ws < 10"
  then show "\<exists>seg. AdvancedModeDetector_detect_trip_segments pm ws m = Inr [seg] \<and>
         waypoints seg = ws \<and> tiles 0 [seg] (int (length ws) - 1)"
    by (simp add: AdvancedModeDetector_detect_trip_segments_def)
next
  assume "10 \<le> length ws"
  then show "\<exists>segs. AdvancedModeDetector_detect_trip_segments pm ws m = Inr segs \<and> segs \<noteq> [] \<and>
         slices_of ws segs \<and>
         (tiles 0 segs (int (length ws) - 1) \<or> tiles 0 segs (int (length ws) - 2))"
    by (rule amd_segments_scan)
qed

theorem segments_tile_all_but_a_last_single_waypoint_witness:
  "length [at_origin 0] < 2 \<and>
   ModeDetector_detect_trip_segments [at_origin 0] 300 = Inr [] \<and>
   0 < length [at_origin 0] \<and> length [at_origin 0] < 10 \<and>
   (\<exists>seg. AdvancedModeDetector_detect_trip_segments unclassified [at_origin 0] 300 = Inr [seg] \<and>
      waypoints seg = [at_origin 0] \<and> tiles 0 [seg] (int (length [at_origin 0]) - 1)) \<and>
   2 \<le> length short_journey \<and>
   (\<exists>segs. ModeDetector_detect_trip_segments short_journey 300 = Inr segs \<and> segs \<noteq> [] \<and>
      slices_of short_journey segs \<and>
      (tiles 0 segs (int (length short_journey) - 1) \<or>
       tiles 0 segs (int (length short_journey) - 2))) \<and>
   10 \<le> length long_journey \<and>
   (\<exists>segs. AdvancedModeDetector_detect_trip_segments unclassified long_journey 300 = Inr segs \<and>
      segs \<noteq> [] \<and> slices_of long_journey segs \<and>
      (tiles 0 segs (int (length long_journey) - 1) \<or>
       tiles 0 segs (int (length long_journey) - 2)))"
proof -
  have one: "length [at_origin 0] < 2" "0 < length [at_origin 0] \<and> length [at_origin 0] < 10"
    by simp_all
  have three: "2 \<le> length short_journey" by (simp add: short_journey_def)
  have ten: "10 \<le> length long_journey" by (simp add: long_journey_def)
  note a = segments_tile_all_but_a_last_single_waypoint [of "[at_origin 0]" 300 unclassified]
  note b = segments_tile_all_but_a_last_single_waypoint [of short_journey 300 unclassified]
  note c = segments_tile_all_but_a_last_single_waypoint [of long_journey 300 unclassified]
  from a one have a1: "ModeDetector_detect_trip_segments [at_origin 0] 300 = Inr []"
    and a2: "\<exists>seg. AdvancedModeDetector_detect_trip_segments unclassified [at_origin 0] 300 = Inr [seg] \<and>
      waypoints seg = [at_origin 0] \<and> tiles 0 [seg] (int (length [at_origin 0]) - 1)"
    by blast+
  from b three have b1: "\<exists>segs. ModeDetector_detect_trip_segments short_journey 300 = Inr segs \<and>
      segs \<noteq> [] \<and> slices_of short_journey segs \<and>
      (tiles 0 segs (int (length short_journey) - 1) \<or>
       tiles 0 segs (int (length short_journey) - 2))"
    by blast
  from c ten have c1: "\<exists>segs. AdvancedModeDetector_detect_trip_segments unclassified long_journey 300 = Inr segs \<and>
      segs \<noteq> [] \<and> slices_of long_journey segs \<and>
      (tiles 0 segs (int (length long_journey) - 1) \<or>
       tiles 0 segs (int (length long_journey) - 2))"
    by blast
  from one three ten a1 a2 b1 c1 show ?thesis by blast
qed

text \<open>
  C1 as stated fails: on \<open>short_journey\<close> the basic tier, and on \<open>long_journey\<close> the
  richer tier, close a segment at the stop and emit nothing for the last waypoint, so
  the segments do not cover the input's index range \<open>0..2\<close> (respectively \<open>0..9\<close>).
\<close>

theorem segments_partition_counterexample:
  "ModeDetector_detect_trip_segments short_journey 300 =
     Inr [\<lparr>start_idx = 0, end_idx = 1, waypoints = [at_origin 0, at_origin 400]\<rparr>] \<and>
   length short_journey = 3 \<and>
   \<not> tiles 0 [\<lparr>start_idx = 0, end_idx = 1, waypoints = [at_origin 0, at_origin 400]\<rparr>] 2 \<and>
   AdvancedModeDetector_detect_trip_segments unclassified long_journey 300 =
     Inr [\<lparr>start_idx = 0, end_idx = 8,
           waypoints = [at_origin 0, at_origin 50, at_origin 100, at_origin 150, at_origin 200,
                        at_origin 250, at_origin 300, at_origin 350, at_origin 400],
           predicted_mode = None, start_time = Some 0, end_time = Some 400\<rparr>] \<and>
   length long_journey = 10 \<and>
   \<not> tiles 0 [\<lparr>start_idx = 0, end_idx = 8,
           waypoints = [at_origin 0, at_origin 50, at_origin 100, at_origin 150, at_origin 200,
                        at_origin 250, at_origin 300, at_origin 350, at_origin 400],
           predicted_mode = None, start_time = Some 0, end_time = Some 400\<rparr>] 9"
proof -
  have "length short_journey = 3" and "length long_journey = 10"
    by (simp_all add: short_journey_def long_journey_def)
  then show ?thesis
    by (simp add: short_journey_segments long_journey_segments)
qed

text \<open>
  C9, evaluated at its failing input: for the empty waypoint list the richer tier's
  short-circuit returns one segment whose \<open>end_idx\<close> is \<open>-1\<close>, below its \<open>start_idx\<close> 0.
\<close>

theorem empty_input_segment_ends_before_it_starts:
  "AdvancedModeDetector_detect_trip_segments unclassified [] 300 =
     Inr [\<lparr>start_idx = 0, end_idx = - 1, waypoints = [],
           predicted_mode = None, start_time = None, end_time = None\<rparr>] \<and>
   \<not> (end_idx \<lparr>start_idx = 0, end_idx = - 1, waypoints = [],
           predicted_mode = None, start_time = None, end_time = None\<rparr>
      \<ge> start_idx \<lparr>start_idx = 0, end_idx = - 1, waypoints = [],
           predicted_mode = None, start_time = None, end_time = None\<rparr>)"
  by (simp add: AdvancedModeDetector_detect_trip_segments_def)

text \<open>
  C4, as amended. The richer tier's bearing lies in \<open>[0, 360)\<close>; the basic tier returns
  the angle of \<open>atan2\<close> in degrees without normalising it, a value in \<open>(-180, 180]\<close>.
\<close>

theorem bearing_ranges:
  "0 \<le> AdvancedModeDetector_calculate_bearing p1 p2 \<and>
   AdvancedModeDetector_calculate_bearing p1 p2 < 360 \<and>
   - 180 < ModeDetector_calculate_bearing p1 p2 \<and>
   ModeDetector_calculate_bearing p1 p2 \<le> 180"
  using py_mod_range [of 360] degrees_atan2_range
  by (simp add: AdvancedModeDetector_calculate_bearing_def ModeDetector_calculate_bearing_def Let_def)

text \<open>
  C4 as stated fails in the basic tier: due west along the equator the bearing is \<open>-90\<close>.
\<close>

theorem bearing_counterexample:
  "ModeDetector_calculate_bearing \<lparr>lat = 0, lng = 0, timestamp = 0\<rparr>
     \<lparr>lat = 0, lng = - 90, timestamp = 0\<rparr> = - 90 \<and>
   \<not> (0 \<le> ModeDetector_calculate_bearing \<lparr>lat = 0, lng = 0, timestamp = 0\<rparr>
     \<lparr>lat = 0, lng = - 90, timestamp = 0\<rparr>)"
  by (simp add: ModeDetector_calculate_bearing_def radians_def degrees_def atan2_def)

subsection \<open>The classifiers\<close>

lemma short_walk_scores:
  "mode_scores_loop (15 / 4) (1 / 2) 12 mode_probabilities =
     Inr [(''walk'', 3 / 10), (''cycle'', 3 / 20), (''bike'', 1 / 40), (''car'', 3 / 32),
          (''bus'', 3 / 200), (''metro'', 3 / 1600)]"
  by (simp add: mode_probabilities_def mode_score_def speed_score_def py_div_def Let_def)

lemma short_walk_fields:
  "get_or (distance_km short_walk) 0 = 1 / 2" "get_or (duration_minutes short_walk) 1 = 8"
  "get_or (time_of_day short_walk) 12 = 12"
  by (simp_all add: short_walk_def empty_trip_def get_or_def)

lemma short_walk_no_jitter:
  "ModeDetector_predict_mode short_walk no_jitter = Inr (''walk'', 480 / 937)"
proof -
  let ?L = "apply_jitter no_jitter [(''walk'', 3 / 10), (''cycle'', 3 / 20), (''bike'', 1 / 40),
     (''car'', 3 / 32), (''bus'', 3 / 200), (''metro'', 3 / 1600)]"
  have k: "max_key ?L = Inr ''walk''"
    by (simp add: max_key_def apply_jitter_def no_jitter_def)
  have c: "confidence_of ?L ''walk'' (1 / 2) = 480 / 937"
    by (simp add: confidence_of_def apply_jitter_def no_jitter_def lookup_def get_or_def)
  show ?thesis
    by (simp add: ModeDetector_predict_mode_def short_walk_fields short_walk_scores Let_def k c)
qed

lemma md_confidence:
  "ModeDetector_predict_mode td j = Inr (m, c) \<Longrightarrow> 0.1 \<le> c \<and> c \<le> 0.95"
  by (auto simp: ModeDetector_predict_mode_def Let_def split: sum.splits)

lemma pp_confidence:
  "PurposePredictor_predict_purpose geo now td hist j = Inr (p, c) \<Longrightarrow> 0.2 \<le> c \<and> c \<le> 0.9"
  by (auto simp: PurposePredictor_predict_purpose_def Let_def split: sum.splits)

lemma max_from_mem: "max_from best rest \<in> set (best # rest)"
  by (induction rest arbitrary: best) auto

lemma max_key_mem: "max_key d = Inr k \<Longrightarrow> k \<in> fst ` set d"
proof (cases d)
  case Nil
  assume "max_key d = Inr k"
  with Nil show ?thesis by (simp add: max_key_def)
next
  case (Cons kv rest)
  assume "max_key d = Inr k"
  with Cons have "k = fst (max_from kv rest)" by (simp add: max_key_def)
  with max_from_mem [of kv rest] Cons show ?thesis by force
qed

lemma max_key_nonempty: "d \<noteq> [] \<Longrightarrow> \<exists>k. max_key d = Inr k"
  by (cases d) (simp_all add: max_key_def)

lemma argmax_bound: "argmax xs = Inr i \<Longrightarrow> i < length xs"
proof -
  assume "argmax xs = Inr i"
  then have "i \<in> fst ` set (zip [0..<length xs] xs)"
    unfolding argmax_def by (rule max_key_mem)
  then obtain v where "(i, v) \<in> set (zip [0..<length xs] xs)" by auto
  then have "i \<in> set [0..<length xs]" by (rule set_zip_leftD)
  then show ?thesis by simp
qed


lemma blend_unit:
  assumes "blend p q = Inr e"
    and "\<forall>v\<in>set p. 0 \<le> v \<and> v \<le> 1" and "\<forall>v\<in>set q. 0 \<le> v \<and> v \<le> 1"
  shows "\<forall>v\<in>set e. 0 \<le> v \<and> v \<le> 1"
proof -
  have mix: "0 \<le> 0.6 * a + 0.4 * b \<and> 0.6 * a + 0.4 * b \<le> 1"
    if "0 \<le> a \<and> a \<le> 1" "0 \<le> b \<and> b \<le> 1" for a b :: real
    using that by simp
  have hdp: "0 \<le> hd p \<and> hd p \<le> 1" if "length p = 1"
    using that assms(2) by (cases p) simp_all
  have hdq: "0 \<le> hd q \<and> hd q \<le> 1" if "length q = 1"
    using that assms(3) by (cases q) simp_all
  consider (eq) "length p = length q"
    | (bp) "length p \<noteq> length q" "length p = 1"
    | (bq) "length p \<noteq> length q" "length p \<noteq> 1" "length q = 1"
    | (bad) "length p \<noteq> length q" "length p \<noteq> 1" "length q \<noteq> 1"
    by blast
  then show ?thesis
  proof cases
    case eq
    with assms(1) have e: "e = map2 (\<lambda>a b. 0.6 * a + 0.4 * b) p q" by (simp add: blend_def)
    show ?thesis
    proof
      fix v assume "v \<in> set e"
      with e obtain a b where "(a, b) \<in> set (zip p q)" "v = 0.6 * a + 0.4 * b" by auto
      moreover then have "a \<in> set p" "b \<in> set q"
        by (auto dest: set_zip_leftD set_zip_rightD)
      ultimately show "0 \<le> v \<and> v \<le> 1" using assms(2,3) mix by blast
    qed
  next
    case bp
    with assms(1) have e: "e = map (\<lambda>b. 0.6 * hd p + 0.4 * b) q" by (simp add: blend_def)
    show ?thesis using e hdp [OF bp(2)] assms(3) mix by auto
  next
    case bq
    with assms(1) have e: "e = map (\<lambda>a. 0.6 * a + 0.4 * hd q) p" by (simp add: blend_def)
    show ?thesis using e hdq [OF bq(3)] assms(2) mix by auto
  next
    case bad
    with assms(1) show ?thesis by (simp add: blend_def)
  qed
qed

lemma ensemble_confidence:
  assumes "ensemble_predict fi det td = Inr (m, c, d)"
    and "unit_probabilities (random_forest det)" and "unit_probabilities (xgboost det)"
  shows "0 \<le> c \<and> c \<le> 1"
proof -
  let ?row = "AdvancedModeDetector_preprocess_data fi det td"
  from assms(1) obtain p q e i where
    p: "predict_proba (random_forest det) ?row = Inr p"
    and q: "predict_proba (xgboost det) ?row = Inr q"
    and e: "blend p q = Inr e" and i: "argmax e = Inr i" and c: "c = e ! i"
    by (auto simp: ensemble_predict_def Let_def split: sum.splits if_splits)
  from p assms(2) have up: "\<forall>v\<in>set p. 0 \<le> v \<and> v \<le> 1" by (auto simp: unit_probabilities_def)
  from q assms(3) have uq: "\<forall>v\<in>set q. 0 \<le> v \<and> v \<le> 1" by (auto simp: unit_probabilities_def)
  from argmax_bound [OF i] have "e ! i \<in> set e" by simp
  with blend_unit [OF e up uq] c show ?thesis by blast
qed

lemma amd_confidence:
  assumes "AdvancedModeDetector_predict_mode fi det td j j' = Inr (m, c, d)"
    and "unit_probabilities (random_forest det)" and "unit_probabilities (xgboost det)"
  shows "0 \<le> c \<and> c \<le> 1"
proof -
  have fb: "0 \<le> c \<and> c \<le> 1" if "ModeDetector_predict_mode td jj = Inr r"
    "fallback_result lbl r = (m, c, d)" for jj r lbl
  proof -
    from that(2) have "r = (m, c)" by (cases r) (simp add: fallback_result_def)
    with that(1) md_confidence [of td jj m c] show ?thesis by simp
  qed
  from assms(1) consider
      (first) r where "ModeDetector_predict_mode td j = Inr r"
        "fallback_result ''Using fallback model'' r = (m, c, d)"
    | (ens) "ensemble_predict fi det td = Inr (m, c, d)"
    | (handler) r where "ModeDetector_predict_mode td j' = Inr r"
        "fallback_result ''Error'' r = (m, c, d)"
    by (auto simp: AdvancedModeDetector_predict_mode_def split: sum.splits if_splits)
  then show ?thesis
  proof cases
    case first then show ?thesis by (rule fb)
  next
    case ens then show ?thesis using assms(2,3) by (rule ensemble_confidence)
  next
    case handler then show ?thesis by (rule fb)
  qed
qed







lemma upt_0_6: "[0..<6] = [0, 1, 2, 3, 4, 5]"
  by (simp add: upt_rec)

lemma loaded_short_walk:
  "AdvancedModeDetector_predict_mode no_parse loaded_detector short_walk no_jitter no_jitter =
     Inr (''walk'', 1 / 6,
          \<lparr>detail = None,
           probabilities = [(''walk'', 1 / 6), (''bike'', 1 / 6), (''car'', 1 / 6),
                            (''bus'', 1 / 6), (''metro'', 1 / 6), (''train'', 1 / 6)],
           feature_importance = Some (zip FEATURE_COLUMNS (replicate 11 (1 / 11))),
           model_type = Some ''ensemble_rf_xgb''\<rparr>)"
  by (simp add: AdvancedModeDetector_predict_mode_def loaded_detector_def ensemble_predict_def
      even_odds_def blend_def argmax_def max_key_def upt_0_6 TRANSPORT_MODES_def enumerate_eq_zip
      Let_def)

lemma even_odds_unit: "unit_probabilities even_odds"
  by (auto simp: unit_probabilities_def even_odds_def)

lemma empty_trip_purpose_scores:
  "purpose_scores_loop no_geodesic 0 empty_trip [] None 0 [] [] ''walk'' (map fst time_patterns) =
     Inr [(''work'', 2 / 5), (''school'', 11 / 20), (''shopping'', 3 / 5), (''leisure'', 3 / 5),
          (''social'', 11 / 20)]"
  by (simp add: time_patterns_def calculate_time_score_def calculate_location_score_def
      calculate_mode_score_def lookup_def location_keywords_def mode_preferences_def
      count_matches_def conflict_step_def Let_def)

lemma empty_trip_fields:
  "start_time_of empty_trip = Inr None" "trip_weekday empty_trip = None"
  "dest_address empty_trip = None" "origin_address empty_trip = None"
  "transport_mode empty_trip = None"
  by (simp_all add: empty_trip_def start_time_of_def)

lemma empty_trip_all_scores:
  "add_other_purposes [(''work'', 2 / 5), (''school'', 11 / 20), (''shopping'', 3 / 5),
      (''leisure'', 3 / 5), (''social'', 11 / 20)] =
   [(''work'', 2 / 5), (''school'', 11 / 20), (''shopping'', 3 / 5), (''leisure'', 3 / 5),
    (''social'', 11 / 20), (''medical'', 1 / 10), (''business'', 1 / 10), (''exercise'', 1 / 10),
    (''other'', 1 / 10)]"
  by (simp add: add_other_purposes_def other_purposes_def)

lemma empty_trip_purpose_no_jitter:
  "PurposePredictor_predict_purpose no_geodesic 0 empty_trip [] no_jitter = Inr (''shopping'', 1 / 5)"
proof -
  let ?L = "apply_jitter no_jitter [(''work'', 2 / 5), (''school'', 11 / 20), (''shopping'', 3 / 5),
    (''leisure'', 3 / 5), (''social'', 11 / 20), (''medical'', 1 / 10), (''business'', 1 / 10),
    (''exercise'', 1 / 10), (''other'', 1 / 10)]"
  have k: "max_key ?L = Inr ''shopping''"
    by (simp add: max_key_def apply_jitter_def no_jitter_def)
  have c: "confidence_of ?L ''shopping'' (3 / 10) = 6 / 31"
    by (simp add: confidence_of_def apply_jitter_def no_jitter_def lookup_def get_or_def)
  show ?thesis
    by (simp add: PurposePredictor_predict_purpose_def empty_trip_fields get_or_def lower_def
        empty_trip_purpose_scores empty_trip_all_scores Let_def k c)
qed

lemma empty_trip_purpose_favour:
  "PurposePredictor_predict_purpose no_geodesic 0 empty_trip [] (favour ''leisure'' ''shopping'') =
     Inr (''leisure'', 36 / 155)"
proof -
  let ?L = "apply_jitter (favour ''leisure'' ''shopping'') [(''work'', 2 / 5), (''school'', 11 / 20), (''shopping'', 3 / 5),
    (''leisure'', 3 / 5), (''social'', 11 / 20), (''medical'', 1 / 10), (''business'', 1 / 10),
    (''exercise'', 1 / 10), (''other'', 1 / 10)]"
  have k: "max_key ?L = Inr ''leisure''"
    by (simp add: max_key_def apply_jitter_def favour_def)
  have c: "confidence_of ?L ''leisure'' (3 / 10) = 36 / 155"
    by (simp add: confidence_of_def apply_jitter_def favour_def lookup_def get_or_def)
  show ?thesis
    by (simp add: PurposePredictor_predict_purpose_def empty_trip_fields get_or_def lower_def
        empty_trip_purpose_scores empty_trip_all_scores Let_def k c)
qed

lemma brisk_ride_fields:
  "get_or (distance_km brisk_ride) 0 = 13" "get_or (duration_minutes brisk_ride) 1 = 30"
  "get_or (time_of_day brisk_ride) 12 = 12"
  by (simp_all add: brisk_ride_def empty_trip_def get_or_def)

lemma brisk_ride_scores:
  "mode_scores_loop 26 13 12 mode_probabilities =
     Inr [(''walk'', 0), (''cycle'', 24 / 125), (''bike'', 1 / 10), (''car'', 1 / 4),
          (''bus'', 1 / 10), (''metro'', 1 / 20)]"
  by (simp add: mode_probabilities_def mode_score_def speed_score_def py_div_def Let_def)

lemma brisk_ride_no_jitter:
  "ModeDetector_predict_mode brisk_ride no_jitter = Inr (''car'', 125 / 346)"
proof -
  let ?L = "apply_jitter no_jitter [(''walk'', 0), (''cycle'', 24 / 125), (''bike'', 1 / 10), (''car'', 1 / 4),
          (''bus'', 1 / 10), (''metro'', 1 / 20)]"
  have k: "max_key ?L = Inr ''car''"
    by (simp add: max_key_def apply_jitter_def no_jitter_def)
  have c: "confidence_of ?L ''car'' (1 / 2) = 125 / 346"
    by (simp add: confidence_of_def apply_jitter_def no_jitter_def lookup_def get_or_def)
  show ?thesis
    by (simp add: ModeDetector_predict_mode_def brisk_ride_fields brisk_ride_scores Let_def k c)
qed

lemma brisk_ride_favour:
  "ModeDetector_predict_mode brisk_ride (favour ''cycle'' ''car'') = Inr (''cycle'', 64 / 189)"
proof -
  let ?L = "apply_jitter (favour ''cycle'' ''car'') [(''walk'', 0), (''cycle'', 24 / 125), (''bike'', 1 / 10), (''car'', 1 / 4),
          (''bus'', 1 / 10), (''metro'', 1 / 20)]"
  have k: "max_key ?L = Inr ''cycle''"
    by (simp add: max_key_def apply_jitter_def favour_def)
  have c: "confidence_of ?L ''cycle'' (1 / 2) = 64 / 189"
    by (simp add: confidence_of_def apply_jitter_def favour_def lookup_def get_or_def)
  show ?thesis
    by (simp add: ModeDetector_predict_mode_def brisk_ride_fields brisk_ride_scores Let_def k c)
qed

lemma favour_in_range:
  "uniform_draws 0.8 1.2 keys (favour a b)" "uniform_draws 0.7 1.3 keys (favour a b)"
  "uniform_draws 0.8 1.2 keys no_jitter" "uniform_draws 0.7 1.3 keys no_jitter"
  by (simp_all add: uniform_draws_def favour_def no_jitter_def list_all_iff)

lemma apply_jitter_cong:
  "(\<forall>k\<in>set (map fst scores). j1 k = j2 k) \<Longrightarrow> apply_jitter j1 scores = apply_jitter j2 scores"
  by (induction scores) (auto simp: apply_jitter_def)

lemma mode_scores_loop_keys:
  "mode_scores_loop a d t cfg = Inr scores \<Longrightarrow> map fst scores = map fst cfg"
  by (induction cfg arbitrary: scores) (auto split: sum.splits)

lemma purpose_scores_loop_keys:
  "purpose_scores_loop geo now td hist start wd dest origin tmode ps = Inr scores \<Longrightarrow>
   map fst scores = ps"
  by (induction ps arbitrary: scores) (auto simp: Let_def split: sum.splits if_splits)

lemma fold_add_keys:
  "set (map fst (fold (\<lambda>p acc. if p \<notin> set (map fst acc) then acc @ [(p, v)] else acc) ps scores)) =
   set (map fst scores) \<union> set ps"
proof (induction ps arbitrary: scores)
  case Nil
  then show ?case by simp
next
  case (Cons p ps)
  have "set (map fst (if p \<notin> set (map fst scores) then scores @ [(p, v)] else scores)) =
        insert p (set (map fst scores))"
    by auto
  with Cons.IH show ?case by simp
qed

lemma add_other_purposes_keys:
  "set (map fst (add_other_purposes scores)) = set (map fst scores) \<union> set other_purposes"
  unfolding add_other_purposes_def by (rule fold_add_keys)

lemma md_predict_frame:
  assumes "\<forall>k\<in>set (map fst mode_probabilities). j1 k = j2 k"
  shows "ModeDetector_predict_mode td j1 = ModeDetector_predict_mode td j2"
proof -
  have "apply_jitter j1 scores = apply_jitter j2 scores"
    if "mode_scores_loop a d t mode_probabilities = Inr scores" for a d t scores
    using mode_scores_loop_keys [OF that] assms by (intro apply_jitter_cong) simp
  then show ?thesis
    by (simp add: ModeDetector_predict_mode_def Let_def split: sum.splits)
qed

lemma pp_predict_frame:
  assumes "\<forall>k\<in>set (map fst time_patterns @ other_purposes). j1 k = j2 k"
  shows "PurposePredictor_predict_purpose geo now td hist j1 =
         PurposePredictor_predict_purpose geo now td hist j2"
proof -
  have "apply_jitter j1 (add_other_purposes scores) = apply_jitter j2 (add_other_purposes scores)"
    if "purpose_scores_loop geo now td hist start wd dest origin tmode (map fst time_patterns) =
          Inr scores" for start wd dest origin tmode scores
  proof (rule apply_jitter_cong)
    from purpose_scores_loop_keys [OF that]
    have "set (map fst scores) = set (map fst time_patterns)" by (simp only:)
    then have "set (map fst (add_other_purposes scores)) =
          set (map fst time_patterns @ other_purposes)"
      unfolding add_other_purposes_keys by (simp only: set_append set_map image_Un)
    with assms show "\<forall>k\<in>set (map fst (add_other_purposes scores)). j1 k = j2 k"
      by (simp only:)
  qed
  then show ?thesis
    by (simp add: PurposePredictor_predict_purpose_def Let_def split: sum.splits)
qed

lemma speed_score_returns:
  "0 < mode_config.max_speed c \<Longrightarrow> 0 < min_speed c \<or> min_speed c \<le> avg \<Longrightarrow> \<exists>s. speed_score avg c = Inr s"
  by (auto simp: speed_score_def py_div_def)

lemma mode_scores_loop_returns:
  "list_all (\<lambda>(m, c). 0 < mode_config.max_speed c \<and> (0 < min_speed c \<or> min_speed c \<le> avg)) cfg \<Longrightarrow>
   \<exists>scores. mode_scores_loop avg d t cfg = Inr scores"
proof (induction cfg)
  case Nil
  then show ?case by simp
next
  case (Cons mc cfg)
  obtain m c where mc: "mc = (m, c)" by (cases mc)
  with Cons.prems have "0 < mode_config.max_speed c" "0 < min_speed c \<or> min_speed c \<le> avg" by simp_all
  from speed_score_returns [OF this] obtain s where "speed_score avg c = Inr s" ..
  then obtain s' where "mode_score avg d t m c = Inr s'" by (simp add: mode_score_def Let_def)
  moreover from Cons obtain scores where "mode_scores_loop avg d t cfg = Inr scores" by auto
  ultimately show ?case using mc by simp
qed

lemma md_predict_returns:
  assumes "0 \<le> get_or (distance_km td) 0"
  shows "\<exists>m c. ModeDetector_predict_mode td j = Inr (m, c)"
proof -
  let ?d = "get_or (distance_km td) 0"
  let ?dur = "get_or (duration_minutes td) 1"
  let ?avg = "if ?dur > 0 then (?d / ?dur) * 60 else 0"
  have avg: "0 \<le> ?avg" using assms by simp
  have "list_all (\<lambda>(m, c). 0 < mode_config.max_speed c \<and> (0 < min_speed c \<or> min_speed c \<le> ?avg))
          mode_probabilities"
    using avg by (simp add: mode_probabilities_def)
  from mode_scores_loop_returns [OF this] obtain scores where
    s: "mode_scores_loop ?avg ?d (get_or (time_of_day td) 12) mode_probabilities = Inr scores"
    by blast
  from mode_scores_loop_keys [OF s] have "scores \<noteq> []" by (auto simp: mode_probabilities_def)
  then have "apply_jitter j scores \<noteq> []" by (simp add: apply_jitter_def)
  from max_key_nonempty [OF this] obtain k where "max_key (apply_jitter j scores) = Inr k" ..
  with s show ?thesis by (simp add: ModeDetector_predict_mode_def Let_def)
qed

lemma negative_distance_raises:
  "ModeDetector_predict_mode (empty_trip\<lparr>distance_km := Some (- 1)\<rparr>) j = Inl ZeroDivisionError"
  by (simp add: ModeDetector_predict_mode_def empty_trip_def get_or_def mode_probabilities_def
      mode_score_def speed_score_def py_div_def Let_def)

subsection \<open>Claims about the classifiers\<close>

text \<open>
  C8. For the trip of 0.5 km in 8 minutes with the default time of day, the fallback
  classifier returns \<open>walk\<close>, whatever factors within \<open>[0.8, 1.2]\<close> the jitter draws.
\<close>

theorem short_slow_trip_predicts_walk:
  assumes "uniform_draws 0.8 1.2 (map fst mode_probabilities) jitter"
  shows "\<exists>c. ModeDetector_predict_mode short_walk jitter = Inr (''walk'', c)"
proof -
  from assms have b: "0.8 \<le> jitter ''walk''" "jitter ''cycle'' \<le> 1.2" "jitter ''bike'' \<le> 1.2"
    "jitter ''car'' \<le> 1.2" "jitter ''bus'' \<le> 1.2" "jitter ''metro'' \<le> 1.2"
    by (simp_all add: uniform_draws_def mode_probabilities_def)
  have "max_key (apply_jitter jitter [(''walk'', 3 / 10), (''cycle'', 3 / 20), (''bike'', 1 / 40),
          (''car'', 3 / 32), (''bus'', 3 / 200), (''metro'', 3 / 1600)]) = Inr ''walk''"
    using b by (simp add: max_key_def apply_jitter_def)
  then show ?thesis
    by (simp add: ModeDetector_predict_mode_def short_walk_fields short_walk_scores Let_def)
qed

theorem short_slow_trip_predicts_walk_witness:
  "uniform_draws 0.8 1.2 (map fst mode_probabilities) (favour ''cycle'' ''walk'') \<and>
   (\<exists>c. ModeDetector_predict_mode short_walk (favour ''cycle'' ''walk'') = Inr (''walk'', c))"
proof -
  have h: "uniform_draws 0.8 1.2 (map fst mode_probabilities) (favour ''cycle'' ''walk'')"
    by (rule favour_in_range)
  from short_slow_trip_predicts_walk [OF h] h show ?thesis by blast
qed

text \<open>
  C7. A confidence that the fallback mode classifier returns lies in \<open>[0.1, 0.95]\<close>, one
  that the purpose classifier returns in \<open>[0.2, 0.9]\<close>, and one that the two-tier
  classifier returns in \<open>[0, 1]\<close>, given that the trained classifiers return
  probabilities in the unit interval.
\<close>

theorem confidence_within_bounds:
  "(ModeDetector_predict_mode td j = Inr (m, c) \<longrightarrow> 0.1 \<le> c \<and> c \<le> 0.95) \<and>
   (PurposePredictor_predict_purpose geo now td hist j1 = Inr (p, c1) \<longrightarrow>
      0.2 \<le> c1 \<and> c1 \<le> 0.9) \<and>
   (unit_probabilities (random_forest det) \<and> unit_probabilities (xgboost det) \<and>
    AdvancedModeDetector_predict_mode fi det td j2 j3 = Inr (m2, c2, d) \<longrightarrow>
      0 \<le> c2 \<and> c2 \<le> 1)"
  using md_confidence [of td j m c] pp_confidence [of geo now td hist j1 p c1]
    amd_confidence [of fi det td j2 j3 m2 c2 d]
  by blast

theorem confidence_within_bounds_witness:
  "ModeDetector_predict_mode short_walk no_jitter = Inr (''walk'', 480 / 937) \<and>
   0.1 \<le> (480 / 937 :: real) \<and> (480 / 937 :: real) \<le> 0.95 \<and>
   PurposePredictor_predict_purpose no_geodesic 0 empty_trip [] no_jitter =
     Inr (''shopping'', 1 / 5) \<and>
   0.2 \<le> (1 / 5 :: real) \<and> (1 / 5 :: real) \<le> 0.9 \<and>
   unit_probabilities (random_forest loaded_detector) \<and>
   unit_probabilities (xgboost loaded_detector) \<and>
   AdvancedModeDetector_predict_mode no_parse loaded_detector short_walk no_jitter no_jitter =
     Inr (''walk'', 1 / 6,
          \<lparr>detail = None,
           probabilities = [(''walk'', 1 / 6), (''bike'', 1 / 6), (''car'', 1 / 6),
                            (''bus'', 1 / 6), (''metro'', 1 / 6), (''train'', 1 / 6)],
           feature_importance = Some (zip FEATURE_COLUMNS (replicate 11 (1 / 11))),
           model_type = Some ''ensemble_rf_xgb''\<rparr>) \<and>
   0 \<le> (1 / 6 :: real) \<and> (1 / 6 :: real) \<le> 1"
proof -
  have u: "unit_probabilities (random_forest loaded_detector)"
    "unit_probabilities (xgboost loaded_detector)"
    using even_odds_unit by (simp_all add: loaded_detector_def)
  note t = confidence_within_bounds [of short_walk no_jitter "''walk''" "480 / 937"
      no_geodesic 0 "[]" no_jitter "''shopping''" "1 / 5" loaded_detector no_parse no_jitter
      no_jitter "''walk''" "1 / 6"]
  note t' = confidence_within_bounds [of empty_trip no_jitter "''walk''" "480 / 937"
      no_geodesic 0 "[]" no_jitter "''shopping''" "1 / 5" loaded_detector no_parse no_jitter
      no_jitter "''walk''" "1 / 6"]
  from t short_walk_no_jitter have a: "0.1 \<le> (480 / 937 :: real) \<and> (480 / 937 :: real) \<le> 0.95"
    by blast
  from t' empty_trip_purpose_no_jitter have b: "0.2 \<le> (1 / 5 :: real) \<and> (1 / 5 :: real) \<le> 0.9"
    by blast
  from t u loaded_short_walk have c: "0 \<le> (1 / 6 :: real) \<and> (1 / 6 :: real) \<le> 1"
    by blast
  from a b c u short_walk_no_jitter empty_trip_purpose_no_jitter loaded_short_walk
  show ?thesis by blast
qed




subsection \<open>Training, the analyzer and the feature builder\<close>

lemma fold_invariant:
  assumes "P s" and "\<And>x t. P t \<Longrightarrow> P (f x t)"
  shows "P (fold f xs s)"
  using assms(1) by (induction xs arbitrary: s) (simp_all add: assms(2))

lemma direction_changes_nonneg: "0 \<le> count_direction_changes b ws"
proof -
  have "0 \<le> fold (direction_step b ws) xs 0" for xs
    by (rule fold_invariant) (simp_all add: direction_step_def Let_def)
  then show ?thesis by (simp add: count_direction_changes_def)
qed

lemma md_stops_nonneg:
  "0 \<le> stops (fold (ModeDetector_speed_step ws) xs \<lparr>speeds = [], stops = 0\<rparr>)"
  by (rule fold_invariant) (simp_all add: ModeDetector_speed_step_def Let_def)

lemma amd_stops_nonneg:
  "0 \<le> stops (fold (AdvancedModeDetector_speed_step ws) xs
            \<lparr>speeds = [], stops = 0, accelerations = [], stop_durations = []\<rparr>)"
  by (rule fold_invariant) (simp_all add: AdvancedModeDetector_speed_step_def Let_def)

lemma amd_counts_nonneg:
  "0 \<le> direction_changes (AdvancedModeDetector_analyze_waypoints ws) \<and>
   0 \<le> stops_count (AdvancedModeDetector_analyze_waypoints ws)"
  using direction_changes_nonneg amd_stops_nonneg
  by (simp add: AdvancedModeDetector_analyze_waypoints_def Let_def)

lemma md_counts_nonneg:
  "0 \<le> direction_changes (ModeDetector_analyze_waypoints ws) \<and>
   0 \<le> stops_count (ModeDetector_analyze_waypoints ws)"
  using direction_changes_nonneg md_stops_nonneg
  by (simp add: ModeDetector_analyze_waypoints_def Let_def)

lemma amd_smoothness_formula:
  "2 \<le> length ws \<Longrightarrow>
   smoothness_score (AdvancedModeDetector_analyze_waypoints ws) =
     min 1 (max 0.1 (1 / (1 + 0.1 * of_int (direction_changes (AdvancedModeDetector_analyze_waypoints ws)) +
        0.05 * of_int (stops_count (AdvancedModeDetector_analyze_waypoints ws)))))"
  by (simp add: AdvancedModeDetector_analyze_waypoints_def Let_def)

lemma md_smoothness_formula:
  "2 \<le> length ws \<Longrightarrow>
   smoothness_score (ModeDetector_analyze_waypoints ws) =
     1 / (1 + 0.1 * of_int (direction_changes (ModeDetector_analyze_waypoints ws)))"
  by (simp add: ModeDetector_analyze_waypoints_def Let_def)

lemma clamped_antitone:
  fixes a b c d :: int
  assumes "0 \<le> a" "0 \<le> b" "a \<le> c" "b \<le> d"
  shows "min 1 (max 0.1 (1 / (1 + 0.1 * of_int c + 0.05 * of_int d))) \<le>
         min (1::real) (max 0.1 (1 / (1 + 0.1 * of_int a + 0.05 * of_int b)))"
proof -
  let ?x = "1 + 0.1 * real_of_int a + 0.05 * real_of_int b"
  let ?y = "1 + 0.1 * real_of_int c + 0.05 * real_of_int d"
  from assms have "0 < ?x" "?x \<le> ?y" by simp_all
  then have "1 / ?y \<le> 1 / ?x" by (simp add: frac_le)
  then show ?thesis by (auto simp: min_def max_def)
qed

lemma plain_antitone:
  fixes a c :: int
  assumes "0 \<le> a" "a \<le> c"
  shows "1 / (1 + 0.1 * of_int c) \<le> (1::real) / (1 + 0.1 * of_int a)"
proof -
  from assms have "0 < 1 + 0.1 * real_of_int a" "1 + 0.1 * real_of_int a \<le> 1 + 0.1 * real_of_int c"
    by simp_all
  then show ?thesis by (simp add: frac_le)
qed

lemma resting_analysis:
  "ModeDetector_analyze_waypoints resting =
     \<lparr>avg_speed = 0, max_speed = 0, stops_count = 1, direction_changes = 0, smoothness_score = 1\<rparr>"
  by (simp add: ModeDetector_analyze_waypoints_def resting_def at_origin_def
      ModeDetector_speed_step_def md_haversine_same count_direction_changes_def Let_def
      mean_def maximum_def)

lemma moving_analysis:
  "stops_count (ModeDetector_analyze_waypoints moving) = 0 \<and>
   direction_changes (ModeDetector_analyze_waypoints moving) = 0 \<and>
   smoothness_score (ModeDetector_analyze_waypoints moving) = 1"
  using fast_leg
  by (simp add: ModeDetector_analyze_waypoints_def moving_def at_origin_def at_antipode_def
      ModeDetector_speed_step_def md_haversine_antipodal count_direction_changes_def Let_def)

lemma amd_resting_analysis:
  "stops_count (AdvancedModeDetector_analyze_waypoints resting) = 1 \<and>
   direction_changes (AdvancedModeDetector_analyze_waypoints resting) = 0 \<and>
   smoothness_score (AdvancedModeDetector_analyze_waypoints resting) = 20 / 21"
  by (simp add: AdvancedModeDetector_analyze_waypoints_def resting_def at_origin_def
      AdvancedModeDetector_speed_step_def amd_haversine_same count_direction_changes_def Let_def)

lemma amd_moving_analysis:
  "stops_count (AdvancedModeDetector_analyze_waypoints moving) = 0 \<and>
   direction_changes (AdvancedModeDetector_analyze_waypoints moving) = 0 \<and>
   smoothness_score (AdvancedModeDetector_analyze_waypoints moving) = 1"
  using fast_leg
  by (simp add: AdvancedModeDetector_analyze_waypoints_def moving_def at_origin_def at_antipode_def
      AdvancedModeDetector_speed_step_def amd_haversine_antipodal count_direction_changes_def Let_def)

lemma feature_row_length: "length (feature_row columns features) = length columns"
  by (simp add: feature_row_def)

lemma preprocess_length:
  assumes "shape_preserving (scaler det)"
  shows "length (AdvancedModeDetector_preprocess_data fi det td) = length (feature_columns det)"
proof (cases "preprocess_body fi det td")
  case (Inl e)
  then show ?thesis by (simp add: AdvancedModeDetector_preprocess_data_def)
next
  case (Inr row)
  then obtain features where f: "build_features fi td = Inr features"
    by (auto simp: preprocess_body_def split: sum.splits)
  let ?raw = "feature_row (feature_columns det) features"
  from Inr f have "row = ?raw \<or> scaler det ?raw = Inr row"
    by (auto simp: preprocess_body_def Let_def split: sum.splits if_splits)
  then have "length row = length (feature_columns det)"
  proof
    assume "row = ?raw" then show ?thesis by (simp add: feature_row_length)
  next
    assume "scaler det ?raw = Inr row"
    with assms have "length row = length ?raw" by (auto simp: shape_preserving_def)
    then show ?thesis by (simp add: feature_row_length)
  qed
  with Inr show ?thesis by (simp add: AdvancedModeDetector_preprocess_data_def)
qed

lemma preprocess_zeros:
  "preprocess_body fi det td = Inl e \<Longrightarrow>
   AdvancedModeDetector_preprocess_data fi det td = replicate (length (feature_columns det)) 0"
  by (simp add: AdvancedModeDetector_preprocess_data_def)

lemma preprocess_body_raises_iff:
  "(\<exists>e. preprocess_body fi det td = Inl e) \<longleftrightarrow> (\<exists>e. build_features fi td = Inl e)"
  by (auto simp: preprocess_body_def Let_def split: sum.splits)

lemma preprocess_unscaled:
  "models_loaded det \<Longrightarrow> build_features fi td = Inr features \<Longrightarrow>
   scaler det (feature_row (feature_columns det) features) = Inl e \<Longrightarrow>
   AdvancedModeDetector_preprocess_data fi det td = feature_row (feature_columns det) features"
  by (simp add: AdvancedModeDetector_preprocess_data_def preprocess_body_def)

lemma undated_trip_raises: "preprocess_body no_parse loaded_detector undated_trip = Inl ValueError"
  by (simp add: preprocess_body_def build_features_def parse_start_time_def undated_trip_def
      no_parse_def Let_def)

lemma short_walk_features:
  "build_features no_parse short_walk =
     Inr [(''distance_km'', 1 / 2), (''duration_minutes'', 8), (''avg_speed'', 15 / 4),
          (''time_of_day'', 12), (''day_of_week'', 0), (''is_weekend'', 0), (''is_rush_hour'', 0),
          (''max_speed'', 45 / 8), (''stops_count'', 0), (''direction_changes'', 0),
          (''avg_acceleration'', 0), (''max_acceleration'', 0), (''weather_temp'', 20),
          (''weather_condition'', 0), (''is_precipitation'', 0), (''route_type'', 0)]"
  by (simp add: build_features_def parse_start_time_def short_walk_def empty_trip_def get_or_def
      Let_def)

lemma short_walk_row:
  "feature_row FEATURE_COLUMNS
     [(''distance_km'', 1 / 2), (''duration_minutes'', 8), (''avg_speed'', 15 / 4),
          (''time_of_day'', 12), (''day_of_week'', 0), (''is_weekend'', 0), (''is_rush_hour'', 0),
          (''max_speed'', 45 / 8), (''stops_count'', 0), (''direction_changes'', 0),
          (''avg_acceleration'', 0), (''max_acceleration'', 0), (''weather_temp'', 20),
          (''weather_condition'', 0), (''is_precipitation'', 0), (''route_type'', 0)] =
   [1 / 2, 8, 15 / 4, 45 / 8, 0, 0, 12, 0, 20, 0, 0]"
  by (simp add: feature_row_def FEATURE_COLUMNS_def lookup_def get_or_def)

lemma identity_shape: "shape_preserving (scaler loaded_detector)"
  by (simp add: shape_preserving_def loaded_detector_def)

subsection \<open>Claims about training, smoothness and features\<close>

text \<open>
  C6, as amended. For at least two waypoints the richer tier's \<open>smoothness_score\<close> is
  \<open>1 / (1 + 0.1 direction_changes + 0.05 stops_count)\<close> clamped to \<open>[0.1, 1]\<close>; the
  basic tier's is \<open>1 / (1 + 0.1 direction_changes)\<close>, without the stop term and without
  the clamp. Both are non-increasing in \<open>direction_changes\<close> and in \<open>stops_count\<close>.
\<close>

theorem smoothness_scores:
  assumes "2 \<le> length ws" and "2 \<le> length ws'"
  shows
    "smoothness_score (AdvancedModeDetector_analyze_waypoints ws) =
       min 1 (max 0.1
         (1 / (1 + 0.1 * of_int (direction_changes (AdvancedModeDetector_analyze_waypoints ws)) +
                   0.05 * of_int (stops_count (AdvancedModeDetector_analyze_waypoints ws))))) \<and>
     smoothness_score (ModeDetector_analyze_waypoints ws) =
       1 / (1 + 0.1 * of_int (direction_changes (ModeDetector_analyze_waypoints ws))) \<and>
     (direction_changes (AdvancedModeDetector_analyze_waypoints ws) \<le>
        direction_changes (AdvancedModeDetector_analyze_waypoints ws') \<and>
      stops_count (AdvancedModeDetector_analyze_waypoints ws) \<le>
        stops_count (AdvancedModeDetector_analyze_waypoints ws') \<longrightarrow>
      smoothness_score (AdvancedModeDetector_analyze_waypoints ws') \<le>
        smoothness_score (AdvancedModeDetector_analyze_waypoints ws)) \<and>
     (direction_changes (ModeDetector_analyze_waypoints ws) \<le>
        direction_changes (ModeDetector_analyze_waypoints ws') \<and>
      stops_count (ModeDetector_analyze_waypoints ws) \<le>
        stops_count (ModeDetector_analyze_waypoints ws') \<longrightarrow>
      smoothness_score (ModeDetector_analyze_waypoints ws') \<le>
        smoothness_score (ModeDetector_analyze_waypoints ws))"
proof (intro conjI impI)
  show "smoothness_score (AdvancedModeDetector_analyze_waypoints ws) =
       min 1 (max 0.1
         (1 / (1 + 0.1 * of_int (direction_changes (AdvancedModeDetector_analyze_waypoints ws)) +
                   0.05 * of_int (stops_count (AdvancedModeDetector_analyze_waypoints ws)))))"
    using assms(1) by (rule amd_smoothness_formula)
next
  show "smoothness_score (ModeDetector_analyze_waypoints ws) =
       1 / (1 + 0.1 * of_int (direction_changes (ModeDetector_analyze_waypoints ws)))"
    using assms(1) by (rule md_smoothness_formula)
next
  assume le: "direction_changes (AdvancedModeDetector_analyze_waypoints ws) \<le>
        direction_changes (AdvancedModeDetector_analyze_waypoints ws') \<and>
      stops_count (AdvancedModeDetector_analyze_waypoints ws) \<le>
        stops_count (AdvancedModeDetector_analyze_waypoints ws')"
  from amd_counts_nonneg [of ws] le
  have "min 1 (max 0.1
         (1 / (1 + 0.1 * of_int (direction_changes (AdvancedModeDetector_analyze_waypoints ws')) +
                   0.05 * of_int (stops_count (AdvancedModeDetector_analyze_waypoints ws'))))) \<le>
        min (1::real) (max 0.1
         (1 / (1 + 0.1 * of_int (direction_changes (AdvancedModeDetector_analyze_waypoints ws)) +
                   0.05 * of_int (stops_count (AdvancedModeDetector_analyze_waypoints ws)))))"
    by (intro clamped_antitone) simp_all
  then show "smoothness_score (AdvancedModeDetector_analyze_waypoints ws') \<le>
        smoothness_score (AdvancedModeDetector_analyze_waypoints ws)"
    by (simp only: amd_smoothness_formula [OF assms(1)] amd_smoothness_formula [OF assms(2)])
next
  assume le: "direction_changes (ModeDetector_analyze_waypoints ws) \<le>
        direction_changes (ModeDetector_analyze_waypoints ws') \<and>
      stops_count (ModeDetector_analyze_waypoints ws) \<le>
        stops_count (ModeDetector_analyze_waypoints ws')"
  from md_counts_nonneg [of ws] le
  have "1 / (1 + 0.1 * of_int (direction_changes (ModeDetector_analyze_waypoints ws'))) \<le>
        (1::real) / (1 + 0.1 * of_int (direction_changes (ModeDetector_analyze_waypoints ws)))"
    by (intro plain_antitone) simp_all
  then show "smoothness_score (ModeDetector_analyze_waypoints ws') \<le>
        smoothness_score (ModeDetector_analyze_waypoints ws)"
    by (simp only: md_smoothness_formula [OF assms(1)] md_smoothness_formula [OF assms(2)])
qed

theorem smoothness_scores_witness:
  "2 \<le> length moving \<and> 2 \<le> length resting \<and>
   direction_changes (AdvancedModeDetector_analyze_waypoints moving) \<le>
     direction_changes (AdvancedModeDetector_analyze_waypoints resting) \<and>
   stops_count (AdvancedModeDetector_analyze_waypoints moving) \<le>
     stops_count (AdvancedModeDetector_analyze_waypoints resting) \<and>
   smoothness_score (AdvancedModeDetector_analyze_waypoints resting) \<le>
     smoothness_score (AdvancedModeDetector_analyze_waypoints moving) \<and>
   direction_changes (ModeDetector_analyze_waypoints moving) \<le>
     direction_changes (ModeDetector_analyze_waypoints resting) \<and>
   stops_count (ModeDetector_analyze_waypoints moving) \<le>
     stops_count (ModeDetector_analyze_waypoints resting) \<and>
   smoothness_score (ModeDetector_analyze_waypoints resting) \<le>
     smoothness_score (ModeDetector_analyze_waypoints moving)"
proof -
  have h: "2 \<le> length moving" "2 \<le> length resting"
    by (simp_all add: moving_def resting_def)
  have a: "direction_changes (AdvancedModeDetector_analyze_waypoints moving) \<le>
     direction_changes (AdvancedModeDetector_analyze_waypoints resting)"
    "stops_count (AdvancedModeDetector_analyze_waypoints moving) \<le>
     stops_count (AdvancedModeDetector_analyze_waypoints resting)"
    using amd_moving_analysis amd_resting_analysis by simp_all
  have b: "direction_changes (ModeDetector_analyze_waypoints moving) \<le>
     direction_changes (ModeDetector_analyze_waypoints resting)"
    "stops_count (ModeDetector_analyze_waypoints moving) \<le>
     stops_count (ModeDetector_analyze_waypoints resting)"
    using moving_analysis resting_analysis by simp_all
  from smoothness_scores [OF h] a b h show ?thesis by blast
qed

text \<open>
  C6 as stated fails in the basic tier: for \<open>resting\<close>, with one stop and no turn, its
  score is 1 and not the clamped \<open>1 / (1 + 0.05)\<close>.
\<close>

theorem smoothness_counterexample:
  "length resting = 2 \<and>
   stops_count (ModeDetector_analyze_waypoints resting) = 1 \<and>
   direction_changes (ModeDetector_analyze_waypoints resting) = 0 \<and>
   smoothness_score (ModeDetector_analyze_waypoints resting) = 1 \<and>
   \<not> smoothness_score (ModeDetector_analyze_waypoints resting) =
     min 1 (max 0.1
       (1 / (1 + 0.1 * of_int (direction_changes (ModeDetector_analyze_waypoints resting)) +
                 0.05 * of_int (stops_count (ModeDetector_analyze_waypoints resting)))))"
proof -
  have "length resting = 2" by (simp add: resting_def)
  then show ?thesis by (simp add: resting_analysis)
qed

text \<open>
  C10. \<open>preprocess_data\<close> returns for every trip: a row with one entry per feature
  column, given that the scaler keeps the length of a row it transforms; the row of
  zeros when its body raises; the unscaled row when the scaler raises.
\<close>

theorem preprocess_data_total:
  "(shape_preserving (scaler det) \<longrightarrow>
      length (AdvancedModeDetector_preprocess_data fi det td) = length (feature_columns det)) \<and>
   (preprocess_body fi det td = Inl e \<longrightarrow>
      AdvancedModeDetector_preprocess_data fi det td =
        replicate (length (feature_columns det)) 0) \<and>
   (models_loaded det \<and> build_features fi td = Inr features \<and>
    scaler det (feature_row (feature_columns det) features) = Inl e' \<longrightarrow>
      AdvancedModeDetector_preprocess_data fi det td =
        feature_row (feature_columns det) features)"
  using preprocess_length [of det fi td] preprocess_zeros [of fi det td e]
    preprocess_unscaled [of det fi td features e']
  by blast

theorem preprocess_data_total_witness:
  "shape_preserving (scaler loaded_detector) \<and>
   length (AdvancedModeDetector_preprocess_data no_parse loaded_detector short_walk) =
     length (feature_columns loaded_detector) \<and>
   preprocess_body no_parse loaded_detector undated_trip = Inl ValueError \<and>
   AdvancedModeDetector_preprocess_data no_parse loaded_detector undated_trip =
     replicate (length (feature_columns loaded_detector)) 0 \<and>
   models_loaded failing_scaler_detector \<and>
   scaler failing_scaler_detector [1 / 2, 8, 15 / 4, 45 / 8, 0, 0, 12, 0, 20, 0, 0] =
     Inl ValueError \<and>
   AdvancedModeDetector_preprocess_data no_parse failing_scaler_detector short_walk =
     [1 / 2, 8, 15 / 4, 45 / 8, 0, 0, 12, 0, 20, 0, 0]"
proof -
  let ?features =
    "[(''distance_km'', 1 / 2), (''duration_minutes'', 8), (''avg_speed'', 15 / 4),
      (''time_of_day'', 12), (''day_of_week'', 0), (''is_weekend'', 0), (''is_rush_hour'', 0),
      (''max_speed'', 45 / 8), (''stops_count'', 0), (''direction_changes'', 0),
      (''avg_acceleration'', 0), (''max_acceleration'', 0), (''weather_temp'', 20),
      (''weather_condition'', 0), (''is_precipitation'', 0), (''route_type'', 0 :: real)]"
  let ?row = "[1 / 2, 8, 15 / 4, 45 / 8, 0, 0, 12, 0, 20, 0, 0 :: real]"
  have cols: "feature_columns failing_scaler_detector = FEATURE_COLUMNS"
    by (simp add: failing_scaler_detector_def loaded_detector_def)
  have row: "feature_row (feature_columns failing_scaler_detector) ?features = ?row"
    by (simp only: cols short_walk_row)
  have h1: "models_loaded failing_scaler_detector"
    by (simp add: failing_scaler_detector_def loaded_detector_def)
  have h2: "scaler failing_scaler_detector ?row = Inl ValueError"
    by (simp add: failing_scaler_detector_def)
  have h2': "scaler failing_scaler_detector
      (feature_row (feature_columns failing_scaler_detector) ?features) = Inl ValueError"
    by (simp add: failing_scaler_detector_def)
  note a = preprocess_data_total [of loaded_detector no_parse short_walk ValueError ?features
      ValueError]
  note b = preprocess_data_total [of loaded_detector no_parse undated_trip ValueError ?features
      ValueError]
  note c = preprocess_data_total [of failing_scaler_detector no_parse short_walk ValueError
      ?features ValueError]
  from a identity_shape
  have r1: "length (AdvancedModeDetector_preprocess_data no_parse loaded_detector short_walk) =
     length (feature_columns loaded_detector)" by blast
  from b undated_trip_raises
  have r2: "AdvancedModeDetector_preprocess_data no_parse loaded_detector undated_trip =
     replicate (length (feature_columns loaded_detector)) 0" by blast
  from c h1 h2' short_walk_features
  have "AdvancedModeDetector_preprocess_data no_parse failing_scaler_detector short_walk =
     feature_row (feature_columns failing_scaler_detector) ?features" by blast
  then have r3: "AdvancedModeDetector_preprocess_data no_parse failing_scaler_detector short_walk =
     ?row" by (simp only: row)
  from r1 r2 r3 h1 h2 identity_shape undated_trip_raises show ?thesis by blast
qed

subsection \<open>Segments of a non-empty input\<close>

lemma slices_of_proper: "slices_of ws segs \<Longrightarrow> list_all (\<lambda>s. start_idx s < end_idx s) segs"
  by (induction segs) auto

lemma nonempty_input_segments_end_after_start:
  assumes "ws \<noteq> []"
    and "AdvancedModeDetector_detect_trip_segments pm ws m = Inr segs"
  shows "list_all (\<lambda>s. start_idx s \<le> end_idx s) segs"
proof (cases "length ws < 10")
  case True
  with assms show ?thesis
    by (auto simp: AdvancedModeDetector_detect_trip_segments_def)
next
  case False
  then have "10 \<le> length ws" by simp
  from amd_segments_scan [OF this, of pm m] assms(2) have "slices_of ws segs" by auto
  from slices_of_proper [OF this] show ?thesis
    by (auto simp: list_all_iff)
qed

lemma basic_segments_end_after_start:
  assumes "ModeDetector_detect_trip_segments ws m = Inr segs"
  shows "list_all (\<lambda>s. start_idx s < end_idx s) segs"
proof (cases "length ws < 2")
  case True
  with assms show ?thesis by (simp add: ModeDetector_detect_trip_segments_def)
next
  case False
  then have "2 \<le> length ws" by simp
  from md_segments_scan [OF this, of m] assms have "slices_of ws segs" by auto
  then show ?thesis by (rule slices_of_proper)
qed

subsection \<open>Training runs, clear leads and the clock\<close>








lemma guard_passed_scaler_replaced:
  assumes "enable" and "50 \<le> length training_data"
    and "training_rows fi (feature_columns det) training_data = Inr (X, y)"
    and "train_test_split lib X y = Inr (X_train, X_test, y_train, y_test)"
  shows "scaler (snd (AdvancedModeDetector_train_models enable lib fi det training_data)) =
           (case StandardScaler_fit lib X_train of Inl e \<Rightarrow> unfitted_scaler | Inr t \<Rightarrow> t)"
proof -
  from assms(2) have "training_data \<noteq> []" "\<not> length training_data < 50" by auto
  with assms(1,3,4) show ?thesis
    by (simp add: AdvancedModeDetector_train_models_def fit_models_def split: sum.splits)
qed








lemma max_from_leader:
  assumes "(k, v) \<in> set (best # rest)"
    and "\<forall>(k', v')\<in>set (best # rest). (k' = k \<longrightarrow> v' = v) \<and> (k' \<noteq> k \<longrightarrow> v' < v)"
  shows "fst (max_from best rest) = k"
  using assms
proof (induction rest arbitrary: best)
  case Nil
  then show ?case by auto
next
  case (Cons kv rest)
  let ?b = "if snd kv > snd best then kv else best"
  have mem: "(k, v) \<in> set (?b # rest)"
  proof (cases "(k, v) \<in> set rest")
    case True
    then show ?thesis by simp
  next
    case False
    with Cons.prems(1) have "best = (k, v) \<or> kv = (k, v)" by auto
    then show ?thesis
    proof
      assume b: "best = (k, v)"
      from Cons.prems(2) have "snd kv \<le> v" by (cases kv) (auto simp: less_imp_le)
      with b show ?thesis by simp
    next
      assume kvk: "kv = (k, v)"
      from Cons.prems(2) have "snd best \<le> v" by (cases best) (auto simp: less_imp_le)
      then show ?thesis
      proof (cases "snd best < v")
        case True
        with kvk show ?thesis by simp
      next
        case False
        with \<open>snd best \<le> v\<close> have "snd best = v" by simp
        with Cons.prems(2) have "fst best = k" by (cases best) auto
        with \<open>snd best = v\<close> have "best = (k, v)" by (cases best) simp
        with kvk show ?thesis by simp
      qed
    qed
  qed
  have all: "\<forall>(k', v')\<in>set (?b # rest). (k' = k \<longrightarrow> v' = v) \<and> (k' \<noteq> k \<longrightarrow> v' < v)"
    using Cons.prems(2) by auto
  from Cons.IH [OF mem all] show ?case by simp
qed

lemma max_key_leader:
  assumes "(k, v) \<in> set d"
    and "\<forall>(k', v')\<in>set d. (k' = k \<longrightarrow> v' = v) \<and> (k' \<noteq> k \<longrightarrow> v' < v)"
  shows "max_key d = Inr k"
proof (cases d)
  case Nil
  with assms(1) show ?thesis by simp
next
  case (Cons kv rest)
  with assms max_from_leader [of k v kv rest] show ?thesis by (simp add: max_key_def)
qed

lemma lead_wins:
  assumes d: "distinct (map fst scores)"
    and nonneg: "list_all (\<lambda>(k', s'). 0 \<le> s') scores"
    and lead: "clear_lead r k scores"
    and lo: "0 < lo" and hi: "hi = r * lo"
    and draws: "uniform_draws lo hi (map fst scores) j"
  shows "max_key (apply_jitter j scores) = Inr k"
proof -
  from lead obtain s where s: "lookup scores k = Some s"
    and others: "list_all (\<lambda>(k', s'). k' = k \<or> s' * r < s) scores"
    by (auto simp: clear_lead_def split: option.splits)
  from s have mem: "(k, s) \<in> set scores" by (simp add: lookup_def map_of_SomeD)
  have jb: "lo \<le> j k' \<and> j k' \<le> hi" if "(k', s') \<in> set scores" for k' s'
    using draws that by (force simp: uniform_draws_def list_all_iff)
  have s0: "0 \<le> s" using nonneg mem by (force simp: list_all_iff)
  have top: "(k, s * j k) \<in> set (apply_jitter j scores)"
    using mem by (force simp: apply_jitter_def)
  have "\<forall>(k', v')\<in>set (apply_jitter j scores).
          (k' = k \<longrightarrow> v' = s * j k) \<and> (k' \<noteq> k \<longrightarrow> v' < s * j k)"
  proof (clarify, intro conjI impI)
    fix k' v' assume "(k', v') \<in> set (apply_jitter j scores)"
    then obtain s' where m': "(k', s') \<in> set scores" and v': "v' = s' * j k'"
      by (auto simp: apply_jitter_def)
    {
      assume "k' = k"
      with m' mem d have "s' = s" by (metis eq_key_imp_eq_value)
      with v' \<open>k' = k\<close> show "v' = s * j k" by simp
    }
    {
      assume ne: "k' \<noteq> k"
      from others m' ne have lt: "s' * r < s" by (force simp: list_all_iff)
      from nonneg m' have s'0: "0 \<le> s'" by (force simp: list_all_iff)
      from jb [OF m'] s'0 have "s' * j k' \<le> s' * hi" by (simp add: mult_left_mono)
      also have "s' * hi = (s' * r) * lo" by (simp add: hi)
      also from lt lo have "(s' * r) * lo < s * lo" by (simp add: mult_strict_right_mono)
      also from jb [OF mem] s0 have "s * lo \<le> s * j k" by (simp add: mult_left_mono)
      finally show "v' < s * j k" by (simp add: v')
    }
  qed
  with top show ?thesis by (rule max_key_leader)
qed

lemma md_predict_via_scores:
  "ModeDetector_predict_mode td j =
     (case mode_scores_of td of
        Inl e \<Rightarrow> Inl e
      | Inr scores \<Rightarrow>
          (case max_key (apply_jitter j scores) of
             Inl e \<Rightarrow> Inl e
           | Inr k \<Rightarrow>
               Inr (k, max (min (confidence_of (apply_jitter j scores) k 0.5) 0.95) 0.1)))"
  by (simp add: ModeDetector_predict_mode_def mode_scores_of_def Let_def split: sum.splits)

lemma pp_predict_via_scores:
  "PurposePredictor_predict_purpose geo now td hist j =
     (case purpose_scores_of geo now td hist of
        Inl e \<Rightarrow> Inl e
      | Inr scores \<Rightarrow>
          (case max_key (apply_jitter j scores) of
             Inl e \<Rightarrow> Inl e
           | Inr k \<Rightarrow>
               Inr (k, max (min (confidence_of (apply_jitter j scores) k 0.3) 0.9) 0.2)))"
  by (simp add: PurposePredictor_predict_purpose_def purpose_scores_of_def Let_def
      split: sum.splits)

lemma speed_score_nonneg: "speed_score a c = Inr s \<Longrightarrow> 0 \<le> s"
  by (auto simp: speed_score_def split: if_splits sum.splits)

lemma mode_score_nonneg:
  assumes "0 \<le> base_prob c" and "mode_score a d t m c = Inr s"
  shows "0 \<le> s"
proof -
  from assms(2) obtain sp where sp: "speed_score a c = Inr sp"
    by (auto simp: mode_score_def split: sum.splits)
  from speed_score_nonneg [OF sp] assms(1) have "0 \<le> base_prob c * sp" by simp
  with assms(2) sp show ?thesis
    by (auto simp: mode_score_def Let_def split: if_splits)
qed

lemma mode_scores_loop_nonneg:
  "list_all (\<lambda>(m, c). 0 \<le> base_prob c) cfg \<Longrightarrow> mode_scores_loop a d t cfg = Inr scores \<Longrightarrow>
   list_all (\<lambda>(k', s'). 0 \<le> s') scores"
proof (induction cfg arbitrary: scores)
  case Nil
  then show ?case by simp
next
  case (Cons mc cfg)
  obtain m c where mc: "mc = (m, c)" by (cases mc)
  from Cons.prems(2) mc obtain s rest where s: "mode_score a d t m c = Inr s"
    and r: "mode_scores_loop a d t cfg = Inr rest" and sc: "scores = (m, s) # rest"
    by (auto split: sum.splits)
  from Cons.prems(1) mc have "0 \<le> base_prob c" by simp
  from mode_score_nonneg [OF this s] have "0 \<le> s" .
  moreover from Cons.IH [OF _ r] Cons.prems(1) have "list_all (\<lambda>(k', s'). 0 \<le> s') rest" by simp
  ultimately show ?case using sc by simp
qed

lemma mode_scores_of_facts:
  assumes "mode_scores_of td = Inr scores"
  shows "map fst scores = map fst mode_probabilities"
    and "distinct (map fst scores)"
    and "list_all (\<lambda>(k', s'). 0 \<le> s') scores"
proof -
  from assms show k: "map fst scores = map fst mode_probabilities"
    by (auto simp: mode_scores_of_def Let_def dest: mode_scores_loop_keys)
  then show "distinct (map fst scores)" by (simp add: mode_probabilities_def)
  have "list_all (\<lambda>(m, c). 0 \<le> base_prob c) mode_probabilities"
    by (simp add: mode_probabilities_def)
  with assms show "list_all (\<lambda>(k', s'). 0 \<le> s') scores"
    by (auto simp: mode_scores_of_def Let_def dest: mode_scores_loop_nonneg)
qed

lemma mode_settled:
  assumes "mode_scores_of td = Inr scores" and "clear_lead (3 / 2) k scores"
    and "uniform_draws 0.8 1.2 (map fst mode_probabilities) j"
  shows "\<exists>c. ModeDetector_predict_mode td j = Inr (k, c)"
proof -
  note f = mode_scores_of_facts [OF assms(1)]
  have "max_key (apply_jitter j scores) = Inr k"
  proof (rule lead_wins [OF f(2) f(3) assms(2)])
    show "(0::real) < 0.8" by simp
    show "(1.2::real) = 3 / 2 * 0.8" by simp
    show "uniform_draws 0.8 1.2 (map fst scores) j" using assms(3) by (simp only: f(1))
  qed
  with assms(1) show ?thesis by (simp add: md_predict_via_scores)
qed

lemma pattern_boosts_nonneg:
  assumes "lookup time_patterns purp = Some pattern"
  shows "(\<forall>b. weekday_boost pattern = Some b \<longrightarrow> 0 \<le> b) \<and>
         (\<forall>b. weekend_boost pattern = Some b \<longrightarrow> 0 \<le> b) \<and>
         (\<forall>b. weekend_penalty pattern = Some b \<longrightarrow> 0 \<le> b)"
  using assms by (auto simp: lookup_def time_patterns_def split: if_splits)

lemma low_fold_nonneg: "0 \<le> s \<Longrightarrow> 0 \<le> fold (low_step h) rs s"
  by (rule fold_invariant) (auto simp: low_step_def)

lemma time_score_nonneg: "0 \<le> calculate_time_score purp start wd"
proof (cases start)
  case None
  then show ?thesis by (simp add: calculate_time_score_def)
next
  case (Some t)
  show ?thesis
  proof (cases "lookup time_patterns purp")
    case None
    with Some show ?thesis by (simp add: calculate_time_score_def)
  next
    case (Some pattern)
    let ?s0 = "if list_ex (in_range (datetime_hour t)) (peak_hours pattern) then 1.0 else (0.3::real)"
    have "0 \<le> ?s0" by simp
    from low_fold_nonneg [OF this]
    have s1: "0 \<le> fold (low_step (datetime_hour t)) (low_hours pattern) ?s0" .
    from pattern_boosts_nonneg [OF Some] s1 \<open>start = Some t\<close> Some show ?thesis
      by (auto simp: calculate_time_score_def Let_def split: option.splits)
  qed
qed

lemma location_score_nonneg: "0 \<le> calculate_location_score purp dest origin"
  by (simp add: calculate_location_score_def Let_def max_def)

lemma mode_preference_nonneg: "0 \<le> calculate_mode_score purp tmode"
proof (cases "lookup mode_preferences purp")
  case None
  then show ?thesis by (simp add: calculate_mode_score_def)
next
  case (Some prefs)
  then have "list_all (\<lambda>(m, v). 0 \<le> v) prefs"
    by (auto simp: lookup_def mode_preferences_def split: if_splits)
  then have "\<And>v. lookup prefs tmode = Some v \<Longrightarrow> 0 \<le> v"
    by (auto simp: lookup_def list_all_iff dest!: map_of_SomeD)
  with Some show ?thesis by (auto simp: calculate_mode_score_def split: option.splits)
qed

lemma history_score_nonneg: "calculate_history_score geo now purp td hist = Inr h \<Longrightarrow> 0 \<le> h"
  by (auto simp: calculate_history_score_def Let_def split: if_splits sum.splits)

lemma purpose_scores_loop_nonneg:
  "purpose_scores_loop geo now td hist start wd dest origin tmode ps = Inr scores \<Longrightarrow>
   list_all (\<lambda>(k', s'). 0 \<le> s') scores"
proof (induction ps arbitrary: scores)
  case Nil
  then show ?case by simp
next
  case (Cons p ps)
  let ?s2 = "calculate_time_score p start wd * calculate_location_score p dest origin *
             calculate_mode_score p tmode"
  have s2: "0 \<le> ?s2"
    using time_score_nonneg location_score_nonneg mode_preference_nonneg by simp
  from Cons.prems obtain s rest where
    s: "(if hist \<noteq> [] then
           (case calculate_history_score geo now p td hist of
              Inl e \<Rightarrow> Inl e | Inr h \<Rightarrow> Inr (?s2 * h))
         else Inr ?s2) = Inr s"
    and r: "purpose_scores_loop geo now td hist start wd dest origin tmode ps = Inr rest"
    and sc: "scores = (p, s) # rest"
    by (auto simp: Let_def split: sum.splits)
  have "0 \<le> s"
  proof (cases "hist = []")
    case True
    with s s2 show ?thesis by simp
  next
    case False
    with s obtain h where h: "calculate_history_score geo now p td hist = Inr h" and "s = ?s2 * h"
      by (auto split: sum.splits)
    with history_score_nonneg [OF h] s2 show ?thesis by simp
  qed
  with Cons.IH [OF r] sc show ?case by simp
qed

lemma fold_add_nonneg:
  "0 \<le> v \<Longrightarrow> list_all (\<lambda>(k', s'). 0 \<le> s') scores \<Longrightarrow>
   list_all (\<lambda>(k', s'). (0::real) \<le> s')
     (fold (\<lambda>p acc. if p \<notin> set (map fst acc) then acc @ [(p, v)] else acc) ps scores)"
  by (induction ps arbitrary: scores) simp_all

lemma fold_add_distinct:
  "distinct (map fst scores) \<Longrightarrow>
   distinct (map fst (fold (\<lambda>p acc. if p \<notin> set (map fst acc) then acc @ [(p, v)] else acc) ps scores))"
  by (induction ps arbitrary: scores) simp_all

lemma purpose_scores_of_facts:
  assumes "purpose_scores_of geo now td hist = Inr scores"
  shows "set (map fst scores) = set (map fst time_patterns @ other_purposes)"
    and "distinct (map fst scores)"
    and "list_all (\<lambda>(k', s'). 0 \<le> s') scores"
proof -
  from assms obtain start wd dest origin tmode raw where
    raw: "purpose_scores_loop geo now td hist start wd dest origin tmode (map fst time_patterns) =
            Inr raw"
    and sc: "scores = add_other_purposes raw"
    by (auto simp: purpose_scores_of_def Let_def split: sum.splits)
  from purpose_scores_loop_keys [OF raw] have k: "map fst raw = map fst time_patterns" .
  show "set (map fst scores) = set (map fst time_patterns @ other_purposes)"
    unfolding sc add_other_purposes_keys k by simp
  have "distinct (map fst raw)" unfolding k by (simp add: time_patterns_def)
  then show "distinct (map fst scores)"
    unfolding sc add_other_purposes_def by (rule fold_add_distinct)
  from purpose_scores_loop_nonneg [OF raw]
  show "list_all (\<lambda>(k', s'). 0 \<le> s') scores"
    unfolding sc add_other_purposes_def by (intro fold_add_nonneg) simp_all
qed

lemma hour_of_trip_clock: "trip_start_time trip \<noteq> None \<Longrightarrow> hour_of_trip now trip = hour_of_trip now' trip"
  by (auto simp: hour_of_trip_def split: option.splits timeval.splits)

lemma similar_trips_clock:
  "list_all (\<lambda>trip. trip_start_time trip \<noteq> None) hist \<Longrightarrow>
   similar_trips_loop geo now h dest hist = similar_trips_loop geo now' h dest hist"
proof (induction hist)
  case Nil
  then show ?case by simp
next
  case (Cons trip hist)
  then have a: "hour_of_trip now trip = hour_of_trip now' trip"
    and b: "similar_trips_loop geo now h dest hist = similar_trips_loop geo now' h dest hist"
    by (simp_all add: hour_of_trip_clock)
  show ?case unfolding similar_trips_loop.simps a b ..
qed

lemma history_score_clock:
  assumes "trip_start_time td \<noteq> None" and "list_all (\<lambda>trip. trip_start_time trip \<noteq> None) hist"
  shows "calculate_history_score geo now purp td hist = calculate_history_score geo now' purp td hist"
proof -
  have h: "hour_of_trip now td = hour_of_trip now' td"
    using assms(1) by (rule hour_of_trip_clock)
  have s: "similar_trips_loop geo now ch dest hist = similar_trips_loop geo now' ch dest hist"
    for ch dest using assms(2) by (rule similar_trips_clock)
  show ?thesis unfolding calculate_history_score_def h s ..
qed

lemma purpose_scores_loop_clock:
  assumes "clock_unread td hist"
  shows "purpose_scores_loop geo now td hist start wd dest origin tmode ps =
         purpose_scores_loop geo now' td hist start wd dest origin tmode ps"
proof (induction ps)
  case Nil
  then show ?case by simp
next
  case (Cons p ps)
  show ?case
  proof (cases "hist = []")
    case True
    with Cons show ?thesis by simp
  next
    case False
    with assms have
      a: "calculate_history_score geo now p td hist = calculate_history_score geo now' p td hist"
      by (auto simp: clock_unread_def intro: history_score_clock)
    show ?thesis unfolding purpose_scores_loop.simps a Cons ..
  qed
qed

lemma purpose_scores_of_clock:
  "clock_unread td hist \<Longrightarrow> purpose_scores_of geo now td hist = purpose_scores_of geo now' td hist"
proof -
  assume "clock_unread td hist"
  then have a: "purpose_scores_loop geo now td hist start wd dest origin tmode ps =
         purpose_scores_loop geo now' td hist start wd dest origin tmode ps"
    for start wd dest origin tmode ps by (rule purpose_scores_loop_clock)
  show ?thesis unfolding purpose_scores_of_def a ..
qed

lemma purpose_settled:
  assumes "purpose_scores_of geo now td hist = Inr scores" and "clear_lead (13 / 7) p scores"
    and "uniform_draws 0.7 1.3 (map fst time_patterns @ other_purposes) j"
  shows "\<exists>c. PurposePredictor_predict_purpose geo now td hist j = Inr (p, c)"
proof -
  note f = purpose_scores_of_facts [OF assms(1)]
  have "max_key (apply_jitter j scores) = Inr p"
  proof (rule lead_wins [OF f(2) f(3) assms(2)])
    show "(0::real) < 0.7" by simp
    show "(1.3::real) = 13 / 7 * 0.7" by simp
    show "uniform_draws 0.7 1.3 (map fst scores) j"
      using assms(3) f(1) by (simp add: uniform_draws_def list_all_iff)
  qed
  with assms(1) show ?thesis by (simp add: pp_predict_via_scores)
qed

lemma short_walk_mode_scores:
  "mode_scores_of short_walk =
     Inr [(''walk'', 3 / 10), (''cycle'', 3 / 20), (''bike'', 1 / 40), (''car'', 3 / 32),
          (''bus'', 3 / 200), (''metro'', 3 / 1600)]"
  by (simp add: mode_scores_of_def short_walk_fields short_walk_scores Let_def)

lemma short_walk_lead:
  "clear_lead (3 / 2) ''walk''
     [(''walk'', 3 / 10), (''cycle'', 3 / 20), (''bike'', 1 / 40), (''car'', 3 / 32),
      (''bus'', 3 / 200), (''metro'', 3 / 1600)]"
  by (simp add: clear_lead_def lookup_def)

lemma short_walk_favour:
  "ModeDetector_predict_mode short_walk (favour ''cycle'' ''walk'') = Inr (''walk'', 384 / 889)"
proof -
  let ?L = "apply_jitter (favour ''cycle'' ''walk'') [(''walk'', 3 / 10), (''cycle'', 3 / 20),
     (''bike'', 1 / 40), (''car'', 3 / 32), (''bus'', 3 / 200), (''metro'', 3 / 1600)]"
  have k: "max_key ?L = Inr ''walk''"
    by (simp add: max_key_def apply_jitter_def favour_def)
  have c: "confidence_of ?L ''walk'' (1 / 2) = 384 / 889"
    by (simp add: confidence_of_def apply_jitter_def favour_def lookup_def get_or_def)
  show ?thesis
    by (simp add: ModeDetector_predict_mode_def short_walk_fields short_walk_scores Let_def k c)
qed

lemma school_run_hour: "datetime_hour 57600 = 16" "datetime_weekday 57600 = 3"
  by (simp_all add: datetime_hour_def datetime_weekday_def)

lemma school_run_fields:
  "start_time_of school_run = Inr (Some 57600)" "trip_weekday school_run = None"
  "dest_address school_run = None" "origin_address school_run = None"
  "transport_mode school_run = Some ''bus''"
  by (simp_all add: school_run_def empty_trip_def start_time_of_def)

lemma school_run_raw_scores:
  "purpose_scores_loop no_geodesic now school_run [] (Some 57600) 3 [] [] ''bus''
     (map fst time_patterns) =
     Inr [(''work'', 117 / 200), (''school'', 14 / 5), (''shopping'', 11 / 10),
          (''leisure'', 18 / 25), (''social'', 3 / 10)]"
  by (simp add: time_patterns_def calculate_time_score_def calculate_location_score_def
      calculate_mode_score_def lookup_def location_keywords_def mode_preferences_def
      count_matches_def conflict_step_def Let_def school_run_hour in_range_def low_step_def)

lemma school_run_purpose_scores:
  "purpose_scores_of no_geodesic now school_run [] =
     Inr [(''work'', 117 / 200), (''school'', 14 / 5), (''shopping'', 11 / 10),
          (''leisure'', 18 / 25), (''social'', 3 / 10), (''medical'', 1 / 10),
          (''business'', 1 / 10), (''exercise'', 1 / 10), (''other'', 1 / 10)]"
  by (simp add: purpose_scores_of_def school_run_fields school_run_hour get_or_def lower_def
      school_run_raw_scores add_other_purposes_def other_purposes_def Let_def)

lemma school_run_lead:
  "clear_lead (13 / 7) ''school''
     [(''work'', 117 / 200), (''school'', 14 / 5), (''shopping'', 11 / 10),
      (''leisure'', 18 / 25), (''social'', 3 / 10), (''medical'', 1 / 10),
      (''business'', 1 / 10), (''exercise'', 1 / 10), (''other'', 1 / 10)]"
  by (simp add: clear_lead_def lookup_def)

lemma school_run_clock: "clock_unread school_run []"
  by (simp add: clock_unread_def)

lemma clock_hours: "datetime_hour 36000 = 10" "datetime_hour 72000 = 20"
  by (simp_all add: datetime_hour_def)

lemma errand_fields:
  "start_time_of errand = Inr None" "trip_weekday errand = None"
  "dest_address errand = None" "origin_address errand = None" "transport_mode errand = None"
  "trip_start_time errand = None" "dest_lat errand = Some 1" "dest_lng errand = Some 1"
  by (simp_all add: errand_def empty_trip_def start_time_of_def)

lemma commute_fields:
  "trip_start_time morning_commute = Some (Datetime 36000)"
  "dest_lat morning_commute = Some 1" "dest_lng morning_commute = Some 1"
  "purpose morning_commute = Some ''work''"
  by (simp_all add: morning_commute_def empty_trip_def)

lemma similar_at_ten:
  "similar_trips_loop coincident 36000 10 (1, 1) [morning_commute] = Inr [morning_commute]"
  by (simp add: hour_of_trip_def commute_fields clock_hours get_or_def coincident_def Let_def)

lemma similar_at_twenty:
  "similar_trips_loop coincident 72000 20 (1, 1) [morning_commute] = Inr []"
  by (simp add: hour_of_trip_def commute_fields clock_hours get_or_def coincident_def Let_def)

lemma history_at_ten:
  "calculate_history_score coincident 36000 purp errand [morning_commute] =
     Inr (if purp = ''work'' then 2 else 8 / 10)"
  by (simp add: calculate_history_score_def hour_of_trip_def errand_fields clock_hours get_or_def
      commute_fields coincident_def Let_def)

lemma history_at_twenty:
  "calculate_history_score coincident 72000 purp errand [morning_commute] = Inr 1"
  by (simp add: calculate_history_score_def hour_of_trip_def errand_fields clock_hours get_or_def
      commute_fields coincident_def Let_def)

lemma errand_scores_at_ten:
  "purpose_scores_loop coincident 36000 errand [morning_commute] None 0 [] [] ''walk''
     (map fst time_patterns) =
     Inr [(''work'', 4 / 5), (''school'', 11 / 25), (''shopping'', 12 / 25),
          (''leisure'', 12 / 25), (''social'', 11 / 25)]"
  by (simp add: time_patterns_def calculate_time_score_def calculate_location_score_def
      calculate_mode_score_def lookup_def location_keywords_def mode_preferences_def
      count_matches_def conflict_step_def Let_def history_at_ten)

lemma errand_scores_at_twenty:
  "purpose_scores_loop coincident 72000 errand [morning_commute] None 0 [] [] ''walk''
     (map fst time_patterns) =
     Inr [(''work'', 2 / 5), (''school'', 11 / 20), (''shopping'', 3 / 5), (''leisure'', 3 / 5),
          (''social'', 11 / 20)]"
  by (simp add: time_patterns_def calculate_time_score_def calculate_location_score_def
      calculate_mode_score_def lookup_def location_keywords_def mode_preferences_def
      count_matches_def conflict_step_def Let_def history_at_twenty)

lemma errand_at_ten:
  "PurposePredictor_predict_purpose coincident 36000 errand [morning_commute] no_jitter =
     Inr (''work'', 5 / 19)"
proof -
  let ?L = "apply_jitter no_jitter [(''work'', 4 / 5), (''school'', 11 / 25), (''shopping'', 12 / 25),
    (''leisure'', 12 / 25), (''social'', 11 / 25), (''medical'', 1 / 10), (''business'', 1 / 10),
    (''exercise'', 1 / 10), (''other'', 1 / 10)]"
  have a: "add_other_purposes [(''work'', 4 / 5), (''school'', 11 / 25), (''shopping'', 12 / 25),
          (''leisure'', 12 / 25), (''social'', 11 / 25)] =
     [(''work'', 4 / 5), (''school'', 11 / 25), (''shopping'', 12 / 25),
    (''leisure'', 12 / 25), (''social'', 11 / 25), (''medical'', 1 / 10), (''business'', 1 / 10),
    (''exercise'', 1 / 10), (''other'', 1 / 10)]"
    by (simp add: add_other_purposes_def other_purposes_def)
  have k: "max_key ?L = Inr ''work''"
    by (simp add: max_key_def apply_jitter_def no_jitter_def)
  have c: "confidence_of ?L ''work'' (3 / 10) = 5 / 19"
    by (simp add: confidence_of_def apply_jitter_def no_jitter_def lookup_def get_or_def)
  show ?thesis
    by (simp add: PurposePredictor_predict_purpose_def errand_fields get_or_def lower_def
        errand_scores_at_ten a Let_def k c)
qed

lemma errand_at_twenty:
  "PurposePredictor_predict_purpose coincident 72000 errand [morning_commute] no_jitter =
     Inr (''shopping'', 1 / 5)"
proof -
  let ?L = "apply_jitter no_jitter [(''work'', 2 / 5), (''school'', 11 / 20), (''shopping'', 3 / 5),
    (''leisure'', 3 / 5), (''social'', 11 / 20), (''medical'', 1 / 10), (''business'', 1 / 10),
    (''exercise'', 1 / 10), (''other'', 1 / 10)]"
  have k: "max_key ?L = Inr ''shopping''"
    by (simp add: max_key_def apply_jitter_def no_jitter_def)
  have c: "confidence_of ?L ''shopping'' (3 / 10) = 6 / 31"
    by (simp add: confidence_of_def apply_jitter_def no_jitter_def lookup_def get_or_def)
  show ?thesis
    by (simp add: PurposePredictor_predict_purpose_def errand_fields get_or_def lower_def
        errand_scores_at_twenty empty_trip_all_scores Let_def k c)
qed

subsection \<open>Claims about training and about two runs on one input\<close>




text \<open>
  C5, as amended. Two runs on one input can differ: each draws its jitter from the
  unseeded generator, and the purpose scorer reads the clock for a trip that has no start
  time when a history is given. What any two runs share is the label, once the scores
  before the jitter settle it: the mode whose score is more than \<open>3/2\<close> times
  (\<open>1.2 / 0.8\<close>) every other mode's score, and, where no hour comes from the clock, the
  purpose whose score is more than \<open>13/7\<close> times (\<open>1.3 / 0.7\<close>) every other purpose's.
\<close>

theorem label_settled_by_a_clear_lead:
  "(mode_scores_of td = Inr scores \<and> clear_lead (3 / 2) k scores \<and>
    uniform_draws 0.8 1.2 (map fst mode_probabilities) j1 \<and>
    uniform_draws 0.8 1.2 (map fst mode_probabilities) j2 \<longrightarrow>
      (\<exists>c1 c2. ModeDetector_predict_mode td j1 = Inr (k, c1) \<and>
               ModeDetector_predict_mode td j2 = Inr (k, c2))) \<and>
   (clock_unread td' hist \<and> purpose_scores_of geo now1 td' hist = Inr pscores \<and>
    clear_lead (13 / 7) p pscores \<and>
    uniform_draws 0.7 1.3 (map fst time_patterns @ other_purposes) j3 \<and>
    uniform_draws 0.7 1.3 (map fst time_patterns @ other_purposes) j4 \<longrightarrow>
      (\<exists>c3 c4. PurposePredictor_predict_purpose geo now1 td' hist j3 = Inr (p, c3) \<and>
               PurposePredictor_predict_purpose geo now2 td' hist j4 = Inr (p, c4)))"
proof (intro conjI impI)
  assume a: "mode_scores_of td = Inr scores \<and> clear_lead (3 / 2) k scores \<and>
    uniform_draws 0.8 1.2 (map fst mode_probabilities) j1 \<and>
    uniform_draws 0.8 1.2 (map fst mode_probabilities) j2"
  then have "\<exists>c. ModeDetector_predict_mode td j1 = Inr (k, c)"
    and "\<exists>c. ModeDetector_predict_mode td j2 = Inr (k, c)"
    by (auto intro: mode_settled)
  then show "\<exists>c1 c2. ModeDetector_predict_mode td j1 = Inr (k, c1) \<and>
               ModeDetector_predict_mode td j2 = Inr (k, c2)"
    by blast
next
  assume b: "clock_unread td' hist \<and> purpose_scores_of geo now1 td' hist = Inr pscores \<and>
    clear_lead (13 / 7) p pscores \<and>
    uniform_draws 0.7 1.3 (map fst time_patterns @ other_purposes) j3 \<and>
    uniform_draws 0.7 1.3 (map fst time_patterns @ other_purposes) j4"
  then have s1: "purpose_scores_of geo now1 td' hist = Inr pscores" by simp
  from b have "purpose_scores_of geo now2 td' hist = purpose_scores_of geo now1 td' hist"
    by (intro purpose_scores_of_clock) simp
  with s1 have s2: "purpose_scores_of geo now2 td' hist = Inr pscores" by simp
  from b have "\<exists>c. PurposePredictor_predict_purpose geo now1 td' hist j3 = Inr (p, c)"
    by (intro purpose_settled [OF s1]) simp_all
  moreover from b have "\<exists>c. PurposePredictor_predict_purpose geo now2 td' hist j4 = Inr (p, c)"
    by (intro purpose_settled [OF s2]) simp_all
  ultimately show "\<exists>c3 c4. PurposePredictor_predict_purpose geo now1 td' hist j3 = Inr (p, c3) \<and>
               PurposePredictor_predict_purpose geo now2 td' hist j4 = Inr (p, c4)"
    by blast
qed

theorem label_settled_by_a_clear_lead_witness:
  "mode_scores_of short_walk =
     Inr [(''walk'', 3 / 10), (''cycle'', 3 / 20), (''bike'', 1 / 40), (''car'', 3 / 32),
          (''bus'', 3 / 200), (''metro'', 3 / 1600)] \<and>
   clear_lead (3 / 2) ''walk''
     [(''walk'', 3 / 10), (''cycle'', 3 / 20), (''bike'', 1 / 40), (''car'', 3 / 32),
      (''bus'', 3 / 200), (''metro'', 3 / 1600)] \<and>
   uniform_draws 0.8 1.2 (map fst mode_probabilities) no_jitter \<and>
   uniform_draws 0.8 1.2 (map fst mode_probabilities) (favour ''cycle'' ''walk'') \<and>
   (\<exists>c1 c2. ModeDetector_predict_mode short_walk no_jitter = Inr (''walk'', c1) \<and>
            ModeDetector_predict_mode short_walk (favour ''cycle'' ''walk'') = Inr (''walk'', c2)) \<and>
   clock_unread school_run [] \<and>
   purpose_scores_of no_geodesic 0 school_run [] =
     Inr [(''work'', 117 / 200), (''school'', 14 / 5), (''shopping'', 11 / 10),
          (''leisure'', 18 / 25), (''social'', 3 / 10), (''medical'', 1 / 10),
          (''business'', 1 / 10), (''exercise'', 1 / 10), (''other'', 1 / 10)] \<and>
   clear_lead (13 / 7) ''school''
     [(''work'', 117 / 200), (''school'', 14 / 5), (''shopping'', 11 / 10),
      (''leisure'', 18 / 25), (''social'', 3 / 10), (''medical'', 1 / 10),
      (''business'', 1 / 10), (''exercise'', 1 / 10), (''other'', 1 / 10)] \<and>
   uniform_draws 0.7 1.3 (map fst time_patterns @ other_purposes) no_jitter \<and>
   uniform_draws 0.7 1.3 (map fst time_patterns @ other_purposes) (favour ''shopping'' ''school'') \<and>
   (\<exists>c3 c4. PurposePredictor_predict_purpose no_geodesic 0 school_run [] no_jitter =
              Inr (''school'', c3) \<and>
            PurposePredictor_predict_purpose no_geodesic 36000 school_run []
              (favour ''shopping'' ''school'') = Inr (''school'', c4))"
proof -
  let ?ms = "[(''walk'', 3 / 10), (''cycle'', 3 / 20), (''bike'', 1 / 40), (''car'', 3 / 32),
          (''bus'', 3 / 200), (''metro'', 3 / 1600 :: real)]"
  let ?ps = "[(''work'', 117 / 200), (''school'', 14 / 5), (''shopping'', 11 / 10),
          (''leisure'', 18 / 25), (''social'', 3 / 10), (''medical'', 1 / 10),
          (''business'', 1 / 10), (''exercise'', 1 / 10), (''other'', 1 / 10 :: real)]"
  have d: "uniform_draws 0.8 1.2 (map fst mode_probabilities) no_jitter"
    "uniform_draws 0.8 1.2 (map fst mode_probabilities) (favour ''cycle'' ''walk'')"
    by (rule favour_in_range)+
  have e: "uniform_draws 0.7 1.3 (map fst time_patterns @ other_purposes) no_jitter"
    "uniform_draws 0.7 1.3 (map fst time_patterns @ other_purposes) (favour ''shopping'' ''school'')"
    by (rule favour_in_range)+
  note t = label_settled_by_a_clear_lead
    [of short_walk ?ms "''walk''" no_jitter "favour ''cycle'' ''walk''" school_run "[]"
      no_geodesic 0 ?ps "''school''" no_jitter "favour ''shopping'' ''school''" 36000]
  from t short_walk_mode_scores short_walk_lead d
  have a: "\<exists>c1 c2. ModeDetector_predict_mode short_walk no_jitter = Inr (''walk'', c1) \<and>
            ModeDetector_predict_mode short_walk (favour ''cycle'' ''walk'') = Inr (''walk'', c2)"
    by blast
  from t school_run_clock school_run_purpose_scores [of 0] school_run_lead e
  have b: "\<exists>c3 c4. PurposePredictor_predict_purpose no_geodesic 0 school_run [] no_jitter =
              Inr (''school'', c3) \<and>
            PurposePredictor_predict_purpose no_geodesic 36000 school_run []
              (favour ''shopping'' ''school'') = Inr (''school'', c4)"
    by blast
  from a b short_walk_mode_scores short_walk_lead d school_run_clock
    school_run_purpose_scores [of 0] school_run_lead e
  show ?thesis by blast
qed

text \<open>
  C5 as stated fails. With draws inside the bounds of \<open>random.uniform\<close>, two runs on one
  trip return different modes; two runs that return the same mode return different
  confidences; two runs return different purposes. With the same draws, two runs on one
  trip and one history return different purposes when the clock reads 10:00 for one
  and 20:00 for the other.
\<close>

theorem determinism_counterexample:
  "uniform_draws 0.8 1.2 (map fst mode_probabilities) no_jitter \<and>
   uniform_draws 0.8 1.2 (map fst mode_probabilities) (favour ''cycle'' ''car'') \<and>
   uniform_draws 0.8 1.2 (map fst mode_probabilities) (favour ''cycle'' ''walk'') \<and>
   ModeDetector_predict_mode brisk_ride no_jitter = Inr (''car'', 125 / 346) \<and>
   ModeDetector_predict_mode brisk_ride (favour ''cycle'' ''car'') = Inr (''cycle'', 64 / 189) \<and>
   ModeDetector_predict_mode short_walk no_jitter = Inr (''walk'', 480 / 937) \<and>
   ModeDetector_predict_mode short_walk (favour ''cycle'' ''walk'') = Inr (''walk'', 384 / 889) \<and>
   uniform_draws 0.7 1.3 (map fst time_patterns @ other_purposes) no_jitter \<and>
   uniform_draws 0.7 1.3 (map fst time_patterns @ other_purposes) (favour ''leisure'' ''shopping'') \<and>
   PurposePredictor_predict_purpose no_geodesic 0 empty_trip [] no_jitter =
     Inr (''shopping'', 1 / 5) \<and>
   PurposePredictor_predict_purpose no_geodesic 0 empty_trip [] (favour ''leisure'' ''shopping'') =
     Inr (''leisure'', 36 / 155) \<and>
   PurposePredictor_predict_purpose coincident 36000 errand [morning_commute] no_jitter =
     Inr (''work'', 5 / 19) \<and>
   PurposePredictor_predict_purpose coincident 72000 errand [morning_commute] no_jitter =
     Inr (''shopping'', 1 / 5)"
  by (intro conjI favour_in_range brisk_ride_no_jitter brisk_ride_favour short_walk_no_jitter
      short_walk_favour empty_trip_purpose_no_jitter empty_trip_purpose_favour errand_at_ten
      errand_at_twenty)

end
